theory Spec2Isabelle
  imports Complex_Main
begin

section \<open>Data model (rules-engine/types/index.ts)\<close>

text \<open>
  The rules engine works on JavaScript numbers. Amounts are modelled as exact reals:
  \<open>Math.max\<close> is \<open>max\<close>, \<open>Math.round x\<close> is \<open>\<lfloor>x + 1/2\<rfloor>\<close> (halves go up), and a
  division whose divisor may be zero is written out with the IEEE outcome of the
  comparison it feeds. Optional fields are \<open>option\<close> values (\<open>None\<close> is \<open>undefined\<close>).
\<close>

datatype UserType = FREELANCER | SELF_EMPLOYED | MICRO_SMALL_BUSINESS | MIXED_INCOME

datatype RegistrationStatus = NOT_REGISTERED | PENDING_REGISTRATION | REGISTERED | NEEDS_UPDATE

datatype TaxRegime = GRADUATED_RATES | EIGHT_PERCENT_FLAT | UNDETERMINED

datatype IncomeType = FREELANCE_SERVICE | BUSINESS_SALES | EMPLOYMENT | RENTAL | ROYALTIES | OTHER

datatype IncomeFrequency = ONE_TIME | MONTHLY | QUARTERLY | ANNUAL | IRREGULAR

datatype ExpenseCategory =
    RENT | UTILITIES | SUPPLIES | PROFESSIONAL_FEES | TRANSPORTATION | COMMUNICATION
  | DEPRECIATION | SALARIES_WAGES | TAXES_LICENSES | INSURANCE | INTEREST_EXPENSE
  | REPAIRS_MAINTENANCE | ADVERTISING | BAD_DEBTS | OTHER_DEDUCTIBLE

datatype RiskLevel = NONE | INFO | WARNING | CPA_REVIEW_REQUIRED

record IncomeStreamData =
  streamId :: string
  incomeType :: IncomeType
  grossAmount :: real
  frequency :: IncomeFrequency
  hasWithholding :: bool
  withheldAmount :: "real option"
  withholdingRate :: "real option"
  form2307Received :: bool

record ExpenseData =
  expenseId :: string
  category :: ExpenseCategory
  amount :: real
  isDeductible :: bool

record RuleInput =
  taxYear :: int
  userType :: UserType
  registrationStatus :: RegistrationStatus
  hasEmploymentIncome :: bool
  incomeStreams :: "IncomeStreamData list"
  expenses :: "ExpenseData list"
  selectedRegime :: "TaxRegime option"
  tin :: "string option"

record QuarterlyPayments =
  q1 :: real
  q2 :: real
  q3 :: real
  annual :: real

record ComputedValues =
  grossIncome :: real
  businessIncome :: real
  employmentIncome :: real
  totalDeductions :: real
  taxableIncome :: real
  estimatedTax :: real
  creditsApplied :: real
  netTaxPayable :: real
  quarterlyPayments :: QuarterlyPayments

subsection \<open>Thresholds and the bracket table\<close>

definition VAT_THRESHOLD :: real where
  "VAT_THRESHOLD = 3000000"

definition EIGHT_PERCENT_GROSS_LIMIT :: real where
  "EIGHT_PERCENT_GROSS_LIMIT = 3000000"

definition PERSONAL_EXEMPTION_THRESHOLD :: real where
  "PERSONAL_EXEMPTION_THRESHOLD = 250000"

definition EIGHT_PERCENT_RATE :: real where
  "EIGHT_PERCENT_RATE = 8 / 100"

definition OSD_RATE :: real where
  "OSD_RATE = 40 / 100"

text \<open>A bracket; \<open>maxB = None\<close> stands for \<open>max: Infinity\<close>.\<close>

record TaxBracket =
  minB :: real
  maxB :: "real option"
  rate :: real
  baseTax :: real

definition GRADUATED_TAX_BRACKETS_2023 :: "TaxBracket list" where
  "GRADUATED_TAX_BRACKETS_2023 =
    [\<lparr>minB = 0, maxB = Some 250000, rate = 0, baseTax = 0\<rparr>,
     \<lparr>minB = 250001, maxB = Some 400000, rate = 15 / 100, baseTax = 0\<rparr>,
     \<lparr>minB = 400001, maxB = Some 800000, rate = 20 / 100, baseTax = 22500\<rparr>,
     \<lparr>minB = 800001, maxB = Some 2000000, rate = 25 / 100, baseTax = 102500\<rparr>,
     \<lparr>minB = 2000001, maxB = Some 8000000, rate = 30 / 100, baseTax = 402500\<rparr>,
     \<lparr>minB = 8000001, maxB = None, rate = 35 / 100, baseTax = 2202500\<rparr>]"

subsection \<open>JavaScript helpers\<close>

definition Math_round :: "real \<Rightarrow> int" where
  "Math_round x = \<lfloor>x + 1 / 2\<rfloor>"

text \<open>\<open>Math.round(x * 100) / 100\<close>, the rounding to cents used by the quarterly split.\<close>

definition round2 :: "real \<Rightarrow> real" where
  "round2 x = of_int (Math_round (x * 100)) / 100"

text \<open>\<open>t <= bracket.max\<close>, where the maximum may be \<open>Infinity\<close>.\<close>

fun leMax :: "real \<Rightarrow> real option \<Rightarrow> bool" where
  "leMax t None = True"
| "leMax t (Some m) = (t \<le> m)"

text \<open>
  \<open>a / b > c\<close> on JavaScript numbers: with \<open>b = 0\<close> the quotient is \<open>Infinity\<close>
  for positive \<open>a\<close> (greater than any \<open>c\<close>), \<open>NaN\<close> for \<open>a = 0\<close> and \<open>-Infinity\<close>
  for negative \<open>a\<close> (both comparisons false).
\<close>

definition jsDivGreater :: "real \<Rightarrow> real \<Rightarrow> real \<Rightarrow> bool" where
  "jsDivGreater a b c = (if b = 0 then 0 < a else c < a / b)"

text \<open>\<open>x || 0\<close> on an optional number.\<close>

fun orZero :: "real option \<Rightarrow> real" where
  "orZero None = 0"
| "orZero (Some x) = x"

text \<open>Truthiness of an optional number: \<open>undefined\<close> and \<open>0\<close> are falsy.\<close>

fun truthyNum :: "real option \<Rightarrow> bool" where
  "truthyNum None = False"
| "truthyNum (Some x) = (x \<noteq> 0)"

section \<open>TaxComputationRule (rules/tax-computation.rule.ts)\<close>

definition TaxComputationRule_calculateGrossIncome :: "RuleInput \<Rightarrow> real" where
  "TaxComputationRule_calculateGrossIncome inp =
     foldl (\<lambda>sum stream. sum + grossAmount stream) 0 (incomeStreams inp)"

definition TaxComputationRule_calculateBusinessIncome :: "RuleInput \<Rightarrow> real" where
  "TaxComputationRule_calculateBusinessIncome inp =
     foldl (\<lambda>sum stream. sum + grossAmount stream) 0
       (filter (\<lambda>stream. incomeType stream \<noteq> EMPLOYMENT) (incomeStreams inp))"

definition TaxComputationRule_calculateEmploymentIncome :: "RuleInput \<Rightarrow> real" where
  "TaxComputationRule_calculateEmploymentIncome inp =
     foldl (\<lambda>sum stream. sum + grossAmount stream) 0
       (filter (\<lambda>stream. incomeType stream = EMPLOYMENT) (incomeStreams inp))"

definition TaxComputationRule_calculateTotalDeductions :: "RuleInput \<Rightarrow> real" where
  "TaxComputationRule_calculateTotalDeductions inp =
     foldl (\<lambda>sum exp. sum + amount exp) 0
       (filter (\<lambda>exp. isDeductible exp) (expenses inp))"

definition TaxComputationRule_calculateWithholdingCredits :: "RuleInput \<Rightarrow> real" where
  "TaxComputationRule_calculateWithholdingCredits inp =
     foldl (\<lambda>sum stream. sum + orZero (withheldAmount stream)) 0
       (filter (\<lambda>stream. hasWithholding stream \<and> truthyNum (withheldAmount stream))
          (incomeStreams inp))"

text \<open>Returns \<open>(tax, taxableAmount)\<close>.\<close>

definition TaxComputationRule_compute8PercentTax :: "real \<Rightarrow> real \<times> real" where
  "TaxComputationRule_compute8PercentTax bi =
     (let taxableAmount = max 0 (bi - PERSONAL_EXEMPTION_THRESHOLD);
          tax = taxableAmount * EIGHT_PERCENT_RATE
      in (tax, taxableAmount))"

text \<open>
  The \<open>for\<close> loop of \<open>applyGraduatedRates\<close>: the first bracket whose maximum is not
  below the income decides; \<open>None\<close> when the loop falls through.
\<close>

fun TaxComputationRule_bracketLoop :: "TaxBracket list \<Rightarrow> real \<Rightarrow> real option" where
  "TaxComputationRule_bracketLoop [] t = None"
| "TaxComputationRule_bracketLoop (bracket # rest) t =
     (if leMax t (maxB bracket)
      then (let excessAmount = max 0 (t - minB bracket)
            in Some (baseTax bracket + excessAmount * rate bracket))
      else TaxComputationRule_bracketLoop rest t)"

definition TaxComputationRule_applyGraduatedRates :: "real \<Rightarrow> real" where
  "TaxComputationRule_applyGraduatedRates t =
     (case TaxComputationRule_bracketLoop GRADUATED_TAX_BRACKETS_2023 t of
        Some tax \<Rightarrow> tax
      | None \<Rightarrow>
          (let lastBracket = last GRADUATED_TAX_BRACKETS_2023;
               excessAmount = t - minB lastBracket
           in baseTax lastBracket + excessAmount * rate lastBracket))"

datatype DeductionMethod = OptionalStandardDeduction | ItemizedDeductions

text \<open>Returns \<open>(tax, taxableIncome, deductionMethod)\<close>; the employment income is not used.\<close>

definition TaxComputationRule_computeGraduatedTax ::
  "real \<Rightarrow> real \<Rightarrow> real \<Rightarrow> real \<times> real \<times> DeductionMethod" where
  "TaxComputationRule_computeGraduatedTax bi actualDeductions employmentInc =
     (let osd = bi * OSD_RATE;
          useOSD = (actualDeductions \<le> osd);
          deduction = (if useOSD then osd else actualDeductions);
          deductionMethod = (if useOSD then OptionalStandardDeduction else ItemizedDeductions);
          taxableBusinessIncome = max 0 (bi - deduction);
          totalTaxableIncome = taxableBusinessIncome;
          tax = TaxComputationRule_applyGraduatedRates totalTaxableIncome
      in (tax, totalTaxableIncome, deductionMethod))"

definition TaxComputationRule_calculateQuarterlyPayments ::
  "real \<Rightarrow> TaxRegime option \<Rightarrow> QuarterlyPayments" where
  "TaxComputationRule_calculateQuarterlyPayments annualTax regime =
     (let quarterlyAmount = annualTax / 4
      in \<lparr>q1 = of_int (Math_round (quarterlyAmount * 100)) / 100,
          q2 = of_int (Math_round (quarterlyAmount * 100)) / 100,
          q3 = of_int (Math_round (quarterlyAmount * 100)) / 100,
          annual = of_int (Math_round ((annualTax - quarterlyAmount * 3) * 100)) / 100\<rparr>)"

definition TaxComputationRule_execute :: "RuleInput \<Rightarrow> ComputedValues" where
  "TaxComputationRule_execute inp =
     (let gross = TaxComputationRule_calculateGrossIncome inp;
          bi = TaxComputationRule_calculateBusinessIncome inp;
          emp = TaxComputationRule_calculateEmploymentIncome inp;
          deductions = TaxComputationRule_calculateTotalDeductions inp;
          credits = TaxComputationRule_calculateWithholdingCredits inp;
          (est, taxable) =
            (if selectedRegime inp = Some EIGHT_PERCENT_FLAT
             then TaxComputationRule_compute8PercentTax bi
             else (case TaxComputationRule_computeGraduatedTax bi deductions emp of
                     (tax, taxableInc, method) \<Rightarrow> (tax, taxableInc)));
          net = max 0 (est - credits);
          quarterly = TaxComputationRule_calculateQuarterlyPayments net (selectedRegime inp)
      in \<lparr>grossIncome = gross, businessIncome = bi, employmentIncome = emp,
          totalDeductions = deductions, taxableIncome = taxable, estimatedTax = est,
          creditsApplied = credits, netTaxPayable = net, quarterlyPayments = quarterly\<rparr>)"

text \<open>A valid input in the sense of the external interface: no negative amount.\<close>

definition validRuleInput :: "RuleInput \<Rightarrow> bool" where
  "validRuleInput inp =
     (list_all (\<lambda>s. 0 \<le> grossAmount s \<and> 0 \<le> orZero (withheldAmount s)) (incomeStreams inp)
      \<and> list_all (\<lambda>e. 0 \<le> amount e) (expenses inp))"

section \<open>Rule modules as objects\<close>

text \<open>
  Every rule class carries the fields \<open>id\<close>, \<open>code\<close>, \<open>version\<close> and \<open>title\<close>; a method
  that reads \<open>this.id\<close> takes the instance as its first argument. Text shown to the user
  that is a template is a constructor carrying the interpolated values; text that is the
  same at every call (titles, form descriptions, pros and cons) is left out.
\<close>

record RuleModuleFields =
  rm_id :: string
  rm_code :: string
  rm_version :: string
  rm_title :: string

text \<open>\<open>String(n)\<close> for a counter value.\<close>

fun showNat :: "nat \<Rightarrow> string" where
  "showNat n =
     (if n < 10 then [''0123456789'' ! n]
      else showNat (n div 10) @ [''0123456789'' ! (n mod 10)])"

declare showNat.simps [simp del]

text \<open>
  The rules collect their results with \<open>push\<close> and number them with a counter local to the
  call: the state of such a loop is the list so far and the next counter value.
\<close>

definition push :: "(nat \<Rightarrow> 'a) \<Rightarrow> 'a list \<times> nat \<Rightarrow> 'a list \<times> nat" where
  "push mk st = (fst st @ [mk (snd st)], Suc (snd st))"

section \<open>RegimeDeterminationRule (rules/regime-determination.rule.ts)\<close>

definition RegimeDeterminationRule_new :: RuleModuleFields where
  "RegimeDeterminationRule_new =
     \<lparr>rm_id = ''REGIME_DETERMINATION'', rm_code = ''REGIME_8PCT_ELIGIBILITY'',
      rm_version = ''1.0.0'', rm_title = ''8% Flat Tax Eligibility Determination''\<rparr>"

datatype EligibilityReason =
    OnlySelfEmployedCanElect
  | GrossReceiptsExceedVat
  | EligibleOnBusinessIncome
  | MeetsAllRequirements

datatype RecommendationReason =
    OptionNotAvailable EligibilityReason
  | ExpensesAppearHigh
  | FlatTaxLower
  | GraduatedLower

record RegimeEstimate =
  re_estimatedTax :: real
  re_effectiveRate :: real

record RegimeComparisonResult =
  eligible8Percent :: bool
  eligibilityReason :: EligibilityReason
  eightPercent :: RegimeEstimate
  graduatedRates :: RegimeEstimate
  recommendation :: TaxRegime
  recommendationReason :: RecommendationReason
  rcr_ruleModuleId :: string

definition RegimeDeterminationRule_calculateBusinessIncome :: "RuleInput \<Rightarrow> real" where
  "RegimeDeterminationRule_calculateBusinessIncome inp =
     foldl (\<lambda>sum stream. sum + grossAmount stream) 0
       (filter (\<lambda>stream. incomeType stream \<noteq> EMPLOYMENT) (incomeStreams inp))"

definition RegimeDeterminationRule_calculateTotalDeductions :: "RuleInput \<Rightarrow> real" where
  "RegimeDeterminationRule_calculateTotalDeductions inp =
     foldl (\<lambda>sum exp. sum + amount exp) 0
       (filter (\<lambda>exp. isDeductible exp) (expenses inp))"

text \<open>Returns \<open>(isEligible, reason)\<close>.\<close>

definition RegimeDeterminationRule_checkEligibility :: "RuleInput \<Rightarrow> bool \<times> EligibilityReason" where
  "RegimeDeterminationRule_checkEligibility inp =
     (let bi = RegimeDeterminationRule_calculateBusinessIncome inp;
          eligibleUserTypes = [FREELANCER, SELF_EMPLOYED, MICRO_SMALL_BUSINESS]
      in if userType inp \<notin> set eligibleUserTypes
         then (False, OnlySelfEmployedCanElect)
         else if VAT_THRESHOLD < bi
         then (False, GrossReceiptsExceedVat)
         else if userType inp = MIXED_INCOME \<or> hasEmploymentIncome inp
         then (True, EligibleOnBusinessIncome)
         else (True, MeetsAllRequirements))"

definition RegimeDeterminationRule_calculate8PercentTax :: "real \<Rightarrow> real" where
  "RegimeDeterminationRule_calculate8PercentTax bi =
     (let taxableAmount = max 0 (bi - PERSONAL_EXEMPTION_THRESHOLD)
      in taxableAmount * EIGHT_PERCENT_RATE)"

fun RegimeDeterminationRule_bracketLoop :: "TaxBracket list \<Rightarrow> real \<Rightarrow> real option" where
  "RegimeDeterminationRule_bracketLoop [] t = None"
| "RegimeDeterminationRule_bracketLoop (bracket # rest) t =
     (if leMax t (maxB bracket)
      then (let excessAmount = max 0 (t - minB bracket)
            in Some (baseTax bracket + excessAmount * rate bracket))
      else RegimeDeterminationRule_bracketLoop rest t)"

definition RegimeDeterminationRule_applyGraduatedRates :: "real \<Rightarrow> real" where
  "RegimeDeterminationRule_applyGraduatedRates t =
     (case RegimeDeterminationRule_bracketLoop GRADUATED_TAX_BRACKETS_2023 t of
        Some tax \<Rightarrow> tax
      | None \<Rightarrow>
          (let lastBracket = last GRADUATED_TAX_BRACKETS_2023;
               excessAmount = t - minB lastBracket
           in baseTax lastBracket + excessAmount * rate lastBracket))"

definition RegimeDeterminationRule_calculateGraduatedTax :: "real \<Rightarrow> real \<Rightarrow> real" where
  "RegimeDeterminationRule_calculateGraduatedTax bi actualDeductions =
     (let osd = bi * OSD_RATE;
          bestDeduction = max actualDeductions osd;
          taxableInc = max 0 (bi - bestDeduction)
      in RegimeDeterminationRule_applyGraduatedRates taxableInc)"

definition RegimeDeterminationRule_execute ::
  "RuleModuleFields \<Rightarrow> RuleInput \<Rightarrow> RegimeComparisonResult" where
  "RegimeDeterminationRule_execute this inp =
     (let (isEligible, reason) = RegimeDeterminationRule_checkEligibility inp;
          bi = RegimeDeterminationRule_calculateBusinessIncome inp;
          deductions = RegimeDeterminationRule_calculateTotalDeductions inp;
          eightPercentTax = RegimeDeterminationRule_calculate8PercentTax bi;
          graduatedTax = RegimeDeterminationRule_calculateGraduatedTax bi deductions;
          cmp8 = \<lparr>re_estimatedTax = (if isEligible then eightPercentTax else 0),
                  re_effectiveRate = (if 0 < bi then eightPercentTax / bi else 0)\<rparr>;
          cmpG = \<lparr>re_estimatedTax = graduatedTax,
                  re_effectiveRate = (if 0 < bi then graduatedTax / bi else 0)\<rparr>;
          (rec, recReason) =
            (if \<not> isEligible then (GRADUATED_RATES, OptionNotAvailable reason)
             else if jsDivGreater deductions bi (4 / 10) then (GRADUATED_RATES, ExpensesAppearHigh)
             else if eightPercentTax < graduatedTax then (EIGHT_PERCENT_FLAT, FlatTaxLower)
             else (GRADUATED_RATES, GraduatedLower))
      in \<lparr>eligible8Percent = isEligible, eligibilityReason = reason,
          eightPercent = cmp8, graduatedRates = cmpG,
          recommendation = rec, recommendationReason = recReason,
          rcr_ruleModuleId = rm_id this\<rparr>)"

section \<open>FilingObligationsRule (rules/filing-obligations.rule.ts)\<close>

definition FilingObligationsRule_new :: RuleModuleFields where
  "FilingObligationsRule_new =
     \<lparr>rm_id = ''FILING_OBLIGATIONS'', rm_code = ''FILING_OBLIGATIONS_DETERMINATION'',
      rm_version = ''1.0.0'', rm_title = ''Tax Filing Obligations Determination''\<rparr>"

datatype Frequency = monthly | quarterly | annually

datatype ObligationNote =
    QuarterlyUnderFlat | QuarterlyUnderGraduated
  | AnnualMixedIncome | AnnualUnderFlat | AnnualDefault
  | PercentageTaxRequired | PercentageTaxReplacedByFlat
  | MustRegister | RegistrationFeeDue | Keep2307 | EmployerProvides2316
  | SimplifiedBooks | FullBooks

record Obligation =
  obl_id :: string
  formCode :: string
  formName :: string
  obl_frequency :: Frequency
  isApplicable :: bool
  obl_ruleModuleId :: string
  obl_notes :: ObligationNote

definition FilingObligationsRule_requiresQuarterlyIncomeTax :: "RuleInput \<Rightarrow> bool" where
  "FilingObligationsRule_requiresQuarterlyIncomeTax inp =
     (let selfEmployedTypes = [FREELANCER, SELF_EMPLOYED, MICRO_SMALL_BUSINESS, MIXED_INCOME]
      in userType inp \<in> set selfEmployedTypes)"

definition FilingObligationsRule_requiresPercentageTax :: "RuleInput \<Rightarrow> bool" where
  "FilingObligationsRule_requiresPercentageTax inp =
     (if selectedRegime inp = Some EIGHT_PERCENT_FLAT then False
      else userType inp \<in> set [FREELANCER, SELF_EMPLOYED, MICRO_SMALL_BUSINESS]
           \<and> selectedRegime inp = Some GRADUATED_RATES)"

definition FilingObligationsRule_getAnnualReturnNotes :: "RuleInput \<Rightarrow> ObligationNote" where
  "FilingObligationsRule_getAnnualReturnNotes inp =
     (if hasEmploymentIncome inp then AnnualMixedIncome
      else if selectedRegime inp = Some EIGHT_PERCENT_FLAT then AnnualUnderFlat
      else AnnualDefault)"

text \<open>\<open>nextId\<close> of the obligations rule, at counter value \<open>n\<close>.\<close>

definition oblNextId :: "nat \<Rightarrow> string" where
  "oblNextId n = ''OBL-'' @ showNat n"

text \<open>
  \<open>execute\<close> is a sequence of statements on the obligations pushed so far and the
  obligation counter; each is a function on that state, named after the form it emits.
\<close>

definition emit_1701Q ::
  "RuleModuleFields \<Rightarrow> RuleInput \<Rightarrow> Obligation list \<times> nat \<Rightarrow> Obligation list \<times> nat" where
  "emit_1701Q this inp st =
     (if FilingObligationsRule_requiresQuarterlyIncomeTax inp
      then push (\<lambda>n. \<lparr>obl_id = oblNextId n, formCode = ''1701Q'',
             formName = ''Quarterly Income Tax Return'', obl_frequency = quarterly,
             isApplicable = True, obl_ruleModuleId = rm_id this,
             obl_notes = (if selectedRegime inp = Some EIGHT_PERCENT_FLAT
                          then QuarterlyUnderFlat else QuarterlyUnderGraduated)\<rparr>) st
      else st)"

definition emit_1701 ::
  "RuleModuleFields \<Rightarrow> RuleInput \<Rightarrow> Obligation list \<times> nat \<Rightarrow> Obligation list \<times> nat" where
  "emit_1701 this inp st =
     push (\<lambda>n. \<lparr>obl_id = oblNextId n, formCode = ''1701'',
        formName = ''Annual Income Tax Return'', obl_frequency = annually,
        isApplicable = True, obl_ruleModuleId = rm_id this,
        obl_notes = FilingObligationsRule_getAnnualReturnNotes inp\<rparr>) st"

definition emit_2551Q ::
  "RuleModuleFields \<Rightarrow> RuleInput \<Rightarrow> Obligation list \<times> nat \<Rightarrow> Obligation list \<times> nat" where
  "emit_2551Q this inp st =
     (if FilingObligationsRule_requiresPercentageTax inp
      then push (\<lambda>n. \<lparr>obl_id = oblNextId n, formCode = ''2551Q'',
             formName = ''Quarterly Percentage Tax Return'', obl_frequency = quarterly,
             isApplicable = True, obl_ruleModuleId = rm_id this,
             obl_notes = PercentageTaxRequired\<rparr>) st
      else if selectedRegime inp = Some EIGHT_PERCENT_FLAT
      then push (\<lambda>n. \<lparr>obl_id = oblNextId n, formCode = ''2551Q'',
             formName = ''Quarterly Percentage Tax Return'', obl_frequency = quarterly,
             isApplicable = False, obl_ruleModuleId = rm_id this,
             obl_notes = PercentageTaxReplacedByFlat\<rparr>) st
      else st)"

definition emit_1901 ::
  "RuleModuleFields \<Rightarrow> RuleInput \<Rightarrow> Obligation list \<times> nat \<Rightarrow> Obligation list \<times> nat" where
  "emit_1901 this inp st =
     (if registrationStatus inp = NOT_REGISTERED
      then push (\<lambda>n. \<lparr>obl_id = oblNextId n, formCode = ''1901'',
             formName = ''Application for Registration (Self-Employed)'',
             obl_frequency = annually,
             isApplicable = True, obl_ruleModuleId = rm_id this,
             obl_notes = MustRegister\<rparr>) st
      else st)"

definition emit_0605 ::
  "RuleModuleFields \<Rightarrow> RuleInput \<Rightarrow> Obligation list \<times> nat \<Rightarrow> Obligation list \<times> nat" where
  "emit_0605 this inp st =
     (if registrationStatus inp = REGISTERED
      then push (\<lambda>n. \<lparr>obl_id = oblNextId n, formCode = ''0605'',
             formName = ''Payment Form (Annual Registration Fee)'',
             obl_frequency = annually,
             isApplicable = True, obl_ruleModuleId = rm_id this,
             obl_notes = RegistrationFeeDue\<rparr>) st
      else st)"

definition emit_2307 ::
  "RuleModuleFields \<Rightarrow> RuleInput \<Rightarrow> Obligation list \<times> nat \<Rightarrow> Obligation list \<times> nat" where
  "emit_2307 this inp st =
     (let hasWithholdingAny = list_ex (\<lambda>s. hasWithholding s) (incomeStreams inp)
      in if hasWithholdingAny
         then push (\<lambda>n. \<lparr>obl_id = oblNextId n, formCode = ''2307'',
                formName = ''Certificate of Creditable Tax Withheld at Source'',
                obl_frequency = quarterly,
                isApplicable = True, obl_ruleModuleId = rm_id this,
                obl_notes = Keep2307\<rparr>) st
         else st)"

definition emit_2316 ::
  "RuleModuleFields \<Rightarrow> RuleInput \<Rightarrow> Obligation list \<times> nat \<Rightarrow> Obligation list \<times> nat" where
  "emit_2316 this inp st =
     (if hasEmploymentIncome inp
      then push (\<lambda>n. \<lparr>obl_id = oblNextId n, formCode = ''2316'',
             formName = ''Certificate of Compensation Payment/Tax Withheld'',
             obl_frequency = annually,
             isApplicable = True, obl_ruleModuleId = rm_id this,
             obl_notes = EmployerProvides2316\<rparr>) st
      else st)"

definition emit_BOOKS ::
  "RuleModuleFields \<Rightarrow> RuleInput \<Rightarrow> Obligation list \<times> nat \<Rightarrow> Obligation list \<times> nat" where
  "emit_BOOKS this inp st =
     (if userType inp \<noteq> MIXED_INCOME
         \<or> list_ex (\<lambda>s. incomeType s \<noteq> EMPLOYMENT) (incomeStreams inp)
      then push (\<lambda>n. \<lparr>obl_id = oblNextId n, formCode = ''BOOKS'',
             formName = ''Books of Accounts'', obl_frequency = annually,
             isApplicable = True, obl_ruleModuleId = rm_id this,
             obl_notes = (if selectedRegime inp = Some EIGHT_PERCENT_FLAT
                          then SimplifiedBooks else FullBooks)\<rparr>) st
      else st)"

definition FilingObligationsRule_execute :: "RuleModuleFields \<Rightarrow> RuleInput \<Rightarrow> Obligation list" where
  "FilingObligationsRule_execute this inp =
     fst (emit_BOOKS this inp
         (emit_2316 this inp
         (emit_2307 this inp
         (emit_0605 this inp
         (emit_1901 this inp
         (emit_2551Q this inp
         (emit_1701 this inp
         (emit_1701Q this inp ([], 1)))))))))"

section \<open>Dates of the JavaScript runtime\<close>

text \<open>
  The deadline rule builds every \<open>Date\<close> from a year, a month index and a day, which is
  midnight of that day in the time zone of the host, moves it by whole days, and prints it
  with \<open>toISOString\<close>, which is in UTC. A \<open>Date\<close> is therefore the number of its local
  day, counted from 1 January 1970, and the host is its offset from UTC in minutes (east
  positive, the same all year). The day arithmetic is that of the proleptic Gregorian
  calendar. Tax years are assumed to lie within the range of \<open>Date\<close>.
\<close>

record Host =
  tzOffsetMinutes :: int

type_synonym JsDate = int

record IsoDate =
  isoYear :: int
  isoMonth :: int
  isoDay :: int

definition daysFromCivil :: "int \<Rightarrow> int \<Rightarrow> int \<Rightarrow> int" where
  "daysFromCivil y m d =
     (let y1 = (if m \<le> 2 then y - 1 else y);
          era = y1 div 400;
          yoe = y1 - era * 400;
          doy = (153 * (if 2 < m then m - 3 else m + 9) + 2) div 5 + d - 1;
          doe = yoe * 365 + yoe div 4 - yoe div 100 + doy
      in era * 146097 + doe - 719468)"

definition civilFromDays :: "int \<Rightarrow> IsoDate" where
  "civilFromDays z =
     (let z1 = z + 719468;
          era = z1 div 146097;
          doe = z1 - era * 146097;
          yoe = (doe - doe div 1460 + doe div 36524 - doe div 146096) div 365;
          y = yoe + era * 400;
          doy = doe - (365 * yoe + yoe div 4 - yoe div 100);
          mp = (5 * doy + 2) div 153;
          d = doy - (153 * mp + 2) div 5 + 1;
          m = (if mp < 10 then mp + 3 else mp - 9)
      in \<lparr>isoYear = (if m \<le> 2 then y + 1 else y), isoMonth = m, isoDay = d\<rparr>)"

text \<open>\<open>new Date(year, monthIndex, day)\<close>; a year from 0 to 99 means 1900 + year.\<close>

definition new_Date :: "int \<Rightarrow> int \<Rightarrow> int \<Rightarrow> JsDate" where
  "new_Date year monthIndex day =
     (let yr = (if 0 \<le> year \<and> year \<le> 99 then 1900 + year else year);
          ym = yr + monthIndex div 12;
          mn = monthIndex mod 12
      in daysFromCivil ym (mn + 1) 1 + (day - 1))"

text \<open>\<open>getDay\<close>: 0 is Sunday, 6 is Saturday; 1 January 1970 was a Thursday.\<close>

definition getDay :: "JsDate \<Rightarrow> int" where
  "getDay date = (date + 4) mod 7"

text \<open>\<open>date.toISOString().split('T')[0]\<close>: the UTC day of the local midnight.\<close>

definition toISODate :: "Host \<Rightarrow> JsDate \<Rightarrow> IsoDate" where
  "toISODate host date = civilFromDays ((date * 1440 - tzOffsetMinutes host) div 1440)"

text \<open>\<open>new Date(s).getTime()\<close> for a date-only ISO string, which is read as UTC.\<close>

definition getTime :: "IsoDate \<Rightarrow> int" where
  "getTime isoDate = daysFromCivil (isoYear isoDate) (isoMonth isoDate) (isoDay isoDate) * 86400000"

section \<open>DeadlineCalculationRule (rules/deadline-calculation.rule.ts)\<close>

definition DeadlineCalculationRule_new :: RuleModuleFields where
  "DeadlineCalculationRule_new =
     \<lparr>rm_id = ''DEADLINE_CALCULATION'', rm_code = ''DEADLINE_CALC'',
      rm_version = ''1.0.0'', rm_title = ''Tax Filing Deadline Calculator''\<rparr>"

record MonthDay =
  md_month :: int
  md_day :: int

record DeadlineConfig =
  dc_formCode :: string
  dc_Q1 :: MonthDay
  dc_Q2 :: MonthDay
  dc_Q3 :: MonthDay
  dc_Q4 :: "MonthDay option"
  annualDeadline :: "MonthDay option"

definition FILING_DEADLINES :: "string \<Rightarrow> DeadlineConfig option" where
  "FILING_DEADLINES = map_of
     [(''1701Q'', \<lparr>dc_formCode = ''1701Q'',
         dc_Q1 = \<lparr>md_month = 5, md_day = 15\<rparr>, dc_Q2 = \<lparr>md_month = 8, md_day = 15\<rparr>,
         dc_Q3 = \<lparr>md_month = 11, md_day = 15\<rparr>, dc_Q4 = None, annualDeadline = None\<rparr>),
      (''1701'', \<lparr>dc_formCode = ''1701'',
         dc_Q1 = \<lparr>md_month = 4, md_day = 15\<rparr>, dc_Q2 = \<lparr>md_month = 4, md_day = 15\<rparr>,
         dc_Q3 = \<lparr>md_month = 4, md_day = 15\<rparr>, dc_Q4 = None,
         annualDeadline = Some \<lparr>md_month = 4, md_day = 15\<rparr>\<rparr>),
      (''2551Q'', \<lparr>dc_formCode = ''2551Q'',
         dc_Q1 = \<lparr>md_month = 4, md_day = 25\<rparr>, dc_Q2 = \<lparr>md_month = 7, md_day = 25\<rparr>,
         dc_Q3 = \<lparr>md_month = 10, md_day = 25\<rparr>,
         dc_Q4 = Some \<lparr>md_month = 1, md_day = 25\<rparr>, annualDeadline = None\<rparr>)]"

text \<open>\<open>config.quarterDeadlines[quarter]\<close>.\<close>

definition quarterDeadlineOf :: "DeadlineConfig \<Rightarrow> string \<Rightarrow> MonthDay option" where
  "quarterDeadlineOf config quarter =
     (if quarter = ''Q1'' then Some (dc_Q1 config)
      else if quarter = ''Q2'' then Some (dc_Q2 config)
      else if quarter = ''Q3'' then Some (dc_Q3 config)
      else if quarter = ''Q4'' then dc_Q4 config
      else None)"

datatype DueDate = ASAP | DueOn IsoDate

datatype DeadlineDescription =
    FormQuarterYear string string int
  | FormTaxYear string int
  | AnnualRegistrationFee int
  | BIRRegistrationWithin30Days

datatype DeadlinePeriod =
    QuarterOf string int
  | AnnualOf int
  | YearOf int
  | BeforeBusinessStarts

datatype PenaltyInfo =
    BasePenalty
  | BasePenaltyQuarterlyReturns
  | BasePenaltyAnnualReturn
  | BasePenaltyPercentageTax
  | LatePaymentOfRegistrationFee
  | LateRegistrationPenalties
  | OperatingWithoutRegistration

record Deadline =
  dl_id :: string
  obligationId :: string
  dl_formCode :: string
  dl_description :: DeadlineDescription
  dueDate :: DueDate
  period :: DeadlinePeriod
  reminderDays :: "nat list"
  penaltyInfo :: PenaltyInfo

definition DeadlineCalculationRule_adjustForWeekend :: "JsDate \<Rightarrow> JsDate" where
  "DeadlineCalculationRule_adjustForWeekend date =
     (let dayOfWeek = getDay date
      in if dayOfWeek = 0 then date + 1
         else if dayOfWeek = 6 then date + 2
         else date)"

definition DeadlineCalculationRule_calculateDueDate ::
  "int \<Rightarrow> int \<Rightarrow> int \<Rightarrow> string \<Rightarrow> JsDate" where
  "DeadlineCalculationRule_calculateDueDate year month day per =
     (let dueDate = new_Date year (month - 1) day;
          dueDate = (if per = ''Q4'' then new_Date (year + 1) (month - 1) day else dueDate)
      in DeadlineCalculationRule_adjustForWeekend dueDate)"

definition DeadlineCalculationRule_getPenaltyInfo :: "string \<Rightarrow> PenaltyInfo" where
  "DeadlineCalculationRule_getPenaltyInfo code =
     (if code = ''1701Q'' then BasePenaltyQuarterlyReturns
      else if code = ''1701'' then BasePenaltyAnnualReturn
      else if code = ''2551Q'' then BasePenaltyPercentageTax
      else if code = ''0605'' then LatePaymentOfRegistrationFee
      else BasePenalty)"

definition dlNextId :: "nat \<Rightarrow> string" where
  "dlNextId n = ''DL-'' @ showNat n"

text \<open>The body of the loop over the applicable obligations: four independent \<open>if\<close>s.\<close>

definition DeadlineCalculationRule_forObligation ::
  "Host \<Rightarrow> RuleInput \<Rightarrow> Obligation \<Rightarrow> Deadline list \<times> nat \<Rightarrow> Deadline list \<times> nat" where
  "DeadlineCalculationRule_forObligation host inp obligation st0 =
     (let config = FILING_DEADLINES (formCode obligation);
          st1 = (case config of
                   Some cfg \<Rightarrow>
                     if obl_frequency obligation = quarterly
                     then foldl (\<lambda>st quarter.
                            case quarterDeadlineOf cfg quarter of
                              None \<Rightarrow> st
                            | Some deadlineConfig \<Rightarrow>
                                (let due = DeadlineCalculationRule_calculateDueDate (taxYear inp)
                                             (md_month deadlineConfig) (md_day deadlineConfig) quarter
                                 in push (\<lambda>n. \<lparr>dl_id = dlNextId n, obligationId = obl_id obligation,
                                      dl_formCode = formCode obligation,
                                      dl_description =
                                        FormQuarterYear (formName obligation) quarter (taxYear inp),
                                      dueDate = DueOn (toISODate host due),
                                      period = QuarterOf quarter (taxYear inp),
                                      reminderDays = [30, 14, 7, 3, 1],
                                      penaltyInfo =
                                        DeadlineCalculationRule_getPenaltyInfo (formCode obligation)\<rparr>)
                                      st))
                            st0 [''Q1'', ''Q2'', ''Q3'']
                     else st0
                 | None \<Rightarrow> st0);
          configAnnual = (case config of Some cfg \<Rightarrow> annualDeadline cfg | None \<Rightarrow> None);
          st2 = (if obl_frequency obligation = annually \<or> configAnnual \<noteq> None
                 then (let annualConfig = (case configAnnual of Some md \<Rightarrow> md
                                           | None \<Rightarrow> \<lparr>md_month = 4, md_day = 15\<rparr>);
                           due = DeadlineCalculationRule_calculateDueDate (taxYear inp + 1)
                                   (md_month annualConfig) (md_day annualConfig) ''ANNUAL''
                       in push (\<lambda>n. \<lparr>dl_id = dlNextId n, obligationId = obl_id obligation,
                            dl_formCode = formCode obligation,
                            dl_description = FormTaxYear (formName obligation) (taxYear inp),
                            dueDate = DueOn (toISODate host due),
                            period = AnnualOf (taxYear inp),
                            reminderDays = [60, 30, 14, 7, 3, 1],
                            penaltyInfo =
                              DeadlineCalculationRule_getPenaltyInfo (formCode obligation)\<rparr>) st1)
                 else st1);
          st3 = (if formCode obligation = ''0605''
                 then (let due = new_Date (taxYear inp) 0 31
                       in push (\<lambda>n. \<lparr>dl_id = dlNextId n, obligationId = obl_id obligation,
                            dl_formCode = ''0605'',
                            dl_description = AnnualRegistrationFee (taxYear inp),
                            dueDate = DueOn (toISODate host
                                        (DeadlineCalculationRule_adjustForWeekend due)),
                            period = YearOf (taxYear inp),
                            reminderDays = [30, 14, 7],
                            penaltyInfo = LateRegistrationPenalties\<rparr>) st2)
                 else st2);
          st4 = (if formCode obligation = ''1901''
                 then push (\<lambda>n. \<lparr>dl_id = dlNextId n, obligationId = obl_id obligation,
                        dl_formCode = ''1901'',
                        dl_description = BIRRegistrationWithin30Days,
                        dueDate = ASAP,
                        period = BeforeBusinessStarts,
                        reminderDays = [],
                        penaltyInfo = OperatingWithoutRegistration\<rparr>) st3
                 else st3)
      in st4)"

text \<open>The comparator handed to \<open>sort\<close>.\<close>

definition compareDeadlines :: "Deadline \<Rightarrow> Deadline \<Rightarrow> int" where
  "compareDeadlines a b =
     (case dueDate a of
        ASAP \<Rightarrow> - 1
      | DueOn da \<Rightarrow>
          (case dueDate b of
             ASAP \<Rightarrow> 1
           | DueOn db \<Rightarrow> getTime da - getTime db))"

text \<open>
  \<open>Array.prototype.sort\<close> is stable; it is modelled as the stable insertion sort that
  keeps an element in front of a later one unless the comparator is positive. The
  comparator is consistent as long as at most one deadline is \<open>ASAP\<close>, which is the case
  for the obligations of the filing rule; two \<open>ASAP\<close> deadlines stay in push order here.
\<close>

fun insertDeadline :: "Deadline \<Rightarrow> Deadline list \<Rightarrow> Deadline list" where
  "insertDeadline x [] = [x]"
| "insertDeadline x (y # ys) =
     (if compareDeadlines x y \<le> 0 then x # y # ys else y # insertDeadline x ys)"

fun sortDeadlines :: "Deadline list \<Rightarrow> Deadline list" where
  "sortDeadlines [] = []"
| "sortDeadlines (x # xs) = insertDeadline x (sortDeadlines xs)"

text \<open>The deadlines in the order they are pushed, before the final sort.\<close>

definition DeadlineCalculationRule_collect ::
  "Host \<Rightarrow> RuleInput \<Rightarrow> Obligation list \<Rightarrow> Deadline list" where
  "DeadlineCalculationRule_collect host inp obls =
     fst (foldl (\<lambda>st obligation. DeadlineCalculationRule_forObligation host inp obligation st)
            ([], 1) (filter (\<lambda>ob. isApplicable ob) obls))"

definition DeadlineCalculationRule_execute ::
  "Host \<Rightarrow> RuleInput \<Rightarrow> Obligation list \<Rightarrow> Deadline list" where
  "DeadlineCalculationRule_execute host inp obls =
     sortDeadlines (DeadlineCalculationRule_collect host inp obls)"

section \<open>RiskAssessmentRule (rules/risk-assessment.rule.ts)\<close>

definition RiskAssessmentRule_new :: RuleModuleFields where
  "RiskAssessmentRule_new =
     \<lparr>rm_id = ''RISK_ASSESSMENT'', rm_code = ''RISK_ASSESS'',
      rm_version = ''1.0.0'', rm_title = ''Tax Risk Assessment''\<rparr>"

text \<open>
  A flag keeps the numbers its description interpolates (\<open>descriptionValues\<close>); the
  wording itself is fixed by the code of the flag.
\<close>

record RiskFlag =
  rf_id :: string
  level :: RiskLevel
  code :: string
  descriptionValues :: "real list"
  rf_ruleModuleId :: string
  affectedFields :: "string list"

definition riskNextId :: "nat \<Rightarrow> string" where
  "riskNextId n = ''RISK-'' @ showNat n"

text \<open>
  \<open>execute\<close> is a sequence of \<open>if\<close> statements on the flags pushed so far and the flag
  counter. Each statement is a function on that state, named after the flag it may push;
  none of them returns early.
\<close>

definition RiskAssessmentRule_totalGrossReceipts :: "RuleInput \<Rightarrow> real" where
  "RiskAssessmentRule_totalGrossReceipts inp =
     foldl (\<lambda>sum s. sum + grossAmount s) 0
       (filter (\<lambda>s. incomeType s \<noteq> EMPLOYMENT) (incomeStreams inp))"

definition RiskAssessmentRule_streamsWithWithholding :: "RuleInput \<Rightarrow> IncomeStreamData list" where
  "RiskAssessmentRule_streamsWithWithholding inp =
     filter (\<lambda>s. hasWithholding s) (incomeStreams inp)"

definition check_UNREG_WITH_INCOME ::
  "RuleModuleFields \<Rightarrow> RuleInput \<Rightarrow> RiskFlag list \<times> nat \<Rightarrow> RiskFlag list \<times> nat" where
  "check_UNREG_WITH_INCOME this inp st =
     (if registrationStatus inp = NOT_REGISTERED
      then (let bi = foldl (\<lambda>sum s. sum + grossAmount s) 0
                       (filter (\<lambda>s. incomeType s \<noteq> EMPLOYMENT) (incomeStreams inp))
            in if 0 < bi
               then push (\<lambda>n. \<lparr>rf_id = riskNextId n, level = CPA_REVIEW_REQUIRED,
                      code = ''UNREG_WITH_INCOME'', descriptionValues = [bi],
                      rf_ruleModuleId = rm_id this,
                      affectedFields = [''registrationStatus'', ''tin'']\<rparr>) st
               else st)
      else st)"

definition check_REG_NEEDS_UPDATE ::
  "RuleModuleFields \<Rightarrow> RuleInput \<Rightarrow> RiskFlag list \<times> nat \<Rightarrow> RiskFlag list \<times> nat" where
  "check_REG_NEEDS_UPDATE this inp st =
     (if registrationStatus inp = NEEDS_UPDATE
      then push (\<lambda>n. \<lparr>rf_id = riskNextId n, level = WARNING,
             code = ''REG_NEEDS_UPDATE'', descriptionValues = [],
             rf_ruleModuleId = rm_id this,
             affectedFields = [''registrationStatus'', ''rdo'']\<rparr>) st
      else st)"

definition check_APPROACHING_VAT_THRESHOLD ::
  "RuleModuleFields \<Rightarrow> RuleInput \<Rightarrow> RiskFlag list \<times> nat \<Rightarrow> RiskFlag list \<times> nat" where
  "check_APPROACHING_VAT_THRESHOLD this inp st =
     (let totalGrossReceipts = RiskAssessmentRule_totalGrossReceipts inp
      in if VAT_THRESHOLD * (8 / 10) \<le> totalGrossReceipts \<and> totalGrossReceipts < VAT_THRESHOLD
         then push (\<lambda>n. \<lparr>rf_id = riskNextId n, level = WARNING,
                code = ''APPROACHING_VAT_THRESHOLD'',
                descriptionValues = [totalGrossReceipts],
                rf_ruleModuleId = rm_id this,
                affectedFields = [''incomeStreams'']\<rparr>) st
         else st)"

definition check_EXCEEDS_VAT_THRESHOLD ::
  "RuleModuleFields \<Rightarrow> RuleInput \<Rightarrow> RiskFlag list \<times> nat \<Rightarrow> RiskFlag list \<times> nat" where
  "check_EXCEEDS_VAT_THRESHOLD this inp st =
     (let totalGrossReceipts = RiskAssessmentRule_totalGrossReceipts inp
      in if VAT_THRESHOLD < totalGrossReceipts
         then push (\<lambda>n. \<lparr>rf_id = riskNextId n, level = CPA_REVIEW_REQUIRED,
                code = ''EXCEEDS_VAT_THRESHOLD'',
                descriptionValues = [totalGrossReceipts],
                rf_ruleModuleId = rm_id this,
                affectedFields = [''incomeStreams'', ''selectedRegime'']\<rparr>) st
         else st)"

definition check_MISSING_2307 ::
  "RuleModuleFields \<Rightarrow> RuleInput \<Rightarrow> RiskFlag list \<times> nat \<Rightarrow> RiskFlag list \<times> nat" where
  "check_MISSING_2307 this inp st =
     (let streamsWithout2307 = filter (\<lambda>s. \<not> form2307Received s)
                                 (RiskAssessmentRule_streamsWithWithholding inp)
      in if 0 < length streamsWithout2307
         then (let totalWithheld = foldl (\<lambda>sum s. sum + orZero (withheldAmount s)) 0
                                     streamsWithout2307
               in push (\<lambda>n. \<lparr>rf_id = riskNextId n, level = WARNING,
                    code = ''MISSING_2307'',
                    descriptionValues = [real (length streamsWithout2307), totalWithheld],
                    rf_ruleModuleId = rm_id this,
                    affectedFields = [''incomeStreams'']\<rparr>) st)
         else st)"

definition check_HIGH_WITHHOLDING ::
  "RuleModuleFields \<Rightarrow> RuleInput \<Rightarrow> RiskFlag list \<times> nat \<Rightarrow> RiskFlag list \<times> nat" where
  "check_HIGH_WITHHOLDING this inp st =
     (let totalGrossReceipts = RiskAssessmentRule_totalGrossReceipts inp;
          totalWithheld = foldl (\<lambda>sum s. sum + orZero (withheldAmount s)) 0
                            (RiskAssessmentRule_streamsWithWithholding inp);
          effectiveWithholdingRate =
            (if 0 < totalGrossReceipts then totalWithheld / totalGrossReceipts else 0)
      in if 15 / 100 < effectiveWithholdingRate \<and> 50000 < totalWithheld
         then push (\<lambda>n. \<lparr>rf_id = riskNextId n, level = INFO,
                code = ''HIGH_WITHHOLDING'',
                descriptionValues = [effectiveWithholdingRate * 100],
                rf_ruleModuleId = rm_id this,
                affectedFields = [''incomeStreams'']\<rparr>) st
         else st)"

definition check_REGIME_NOT_SELECTED ::
  "RuleModuleFields \<Rightarrow> RuleInput \<Rightarrow> RiskFlag list \<times> nat \<Rightarrow> RiskFlag list \<times> nat" where
  "check_REGIME_NOT_SELECTED this inp st =
     (if selectedRegime inp = Some UNDETERMINED
      then push (\<lambda>n. \<lparr>rf_id = riskNextId n, level = WARNING,
             code = ''REGIME_NOT_SELECTED'', descriptionValues = [],
             rf_ruleModuleId = rm_id this,
             affectedFields = [''selectedRegime'']\<rparr>) st
      else st)"

definition check_8PCT_HIGH_EXPENSES ::
  "RuleModuleFields \<Rightarrow> RuleInput \<Rightarrow> RiskFlag list \<times> nat \<Rightarrow> RiskFlag list \<times> nat" where
  "check_8PCT_HIGH_EXPENSES this inp st =
     (let totalGrossReceipts = RiskAssessmentRule_totalGrossReceipts inp
      in if selectedRegime inp = Some EIGHT_PERCENT_FLAT
         then (let deductions = foldl (\<lambda>sum e. sum + amount e) 0
                                  (filter (\<lambda>e. isDeductible e) (expenses inp));
                   expenseRatio = (if 0 < totalGrossReceipts
                                   then deductions / totalGrossReceipts else 0)
               in if 5 / 10 < expenseRatio
                  then push (\<lambda>n. \<lparr>rf_id = riskNextId n, level = INFO,
                         code = ''8PCT_HIGH_EXPENSES'',
                         descriptionValues = [expenseRatio * 100],
                         rf_ruleModuleId = rm_id this,
                         affectedFields = [''selectedRegime'', ''expenses'']\<rparr>) st
                  else st)
         else st)"

definition check_NO_INCOME_RECORDED ::
  "RuleModuleFields \<Rightarrow> RuleInput \<Rightarrow> RiskFlag list \<times> nat \<Rightarrow> RiskFlag list \<times> nat" where
  "check_NO_INCOME_RECORDED this inp st =
     (if length (incomeStreams inp) = 0
      then push (\<lambda>n. \<lparr>rf_id = riskNextId n, level = WARNING,
             code = ''NO_INCOME_RECORDED'', descriptionValues = [],
             rf_ruleModuleId = rm_id this,
             affectedFields = [''incomeStreams'']\<rparr>) st
      else st)"

definition check_MIXED_NO_EMPLOYMENT ::
  "RuleModuleFields \<Rightarrow> RuleInput \<Rightarrow> RiskFlag list \<times> nat \<Rightarrow> RiskFlag list \<times> nat" where
  "check_MIXED_NO_EMPLOYMENT this inp st =
     (if userType inp = MIXED_INCOME \<and> \<not> hasEmploymentIncome inp
         \<and> \<not> list_ex (\<lambda>s. incomeType s = EMPLOYMENT) (incomeStreams inp)
      then push (\<lambda>n. \<lparr>rf_id = riskNextId n, level = WARNING,
             code = ''MIXED_NO_EMPLOYMENT'', descriptionValues = [],
             rf_ruleModuleId = rm_id this,
             affectedFields = [''userType'', ''hasEmploymentIncome'', ''incomeStreams'']\<rparr>) st
      else st)"

definition check_LARGE_INCOME_NO_DOCS ::
  "RuleModuleFields \<Rightarrow> RuleInput \<Rightarrow> RiskFlag list \<times> nat \<Rightarrow> RiskFlag list \<times> nat" where
  "check_LARGE_INCOME_NO_DOCS this inp st =
     (let totalGrossReceipts = RiskAssessmentRule_totalGrossReceipts inp
      in if 500000 < totalGrossReceipts
         then (let hasAnyDocs = list_ex (\<lambda>s. form2307Received s \<or> hasWithholding s)
                                  (incomeStreams inp)
               in if \<not> hasAnyDocs
                  then push (\<lambda>n. \<lparr>rf_id = riskNextId n, level = INFO,
                         code = ''LARGE_INCOME_NO_DOCS'', descriptionValues = [],
                         rf_ruleModuleId = rm_id this,
                         affectedFields = [''incomeStreams'']\<rparr>) st
                  else st)
         else st)"

definition check_EXPENSE_DOCS_REMINDER ::
  "RuleModuleFields \<Rightarrow> RuleInput \<Rightarrow> RiskFlag list \<times> nat \<Rightarrow> RiskFlag list \<times> nat" where
  "check_EXPENSE_DOCS_REMINDER this inp st =
     (if selectedRegime inp = Some GRADUATED_RATES \<and> 0 < length (expenses inp)
      then push (\<lambda>n. \<lparr>rf_id = riskNextId n, level = INFO,
             code = ''EXPENSE_DOCS_REMINDER'', descriptionValues = [],
             rf_ruleModuleId = rm_id this,
             affectedFields = [''expenses'']\<rparr>) st
      else st)"

definition RiskAssessmentRule_execute :: "RuleModuleFields \<Rightarrow> RuleInput \<Rightarrow> RiskFlag list" where
  "RiskAssessmentRule_execute this inp =
     fst (check_EXPENSE_DOCS_REMINDER this inp
         (check_LARGE_INCOME_NO_DOCS this inp
         (check_MIXED_NO_EMPLOYMENT this inp
         (check_NO_INCOME_RECORDED this inp
         (check_8PCT_HIGH_EXPENSES this inp
         (check_REGIME_NOT_SELECTED this inp
         (check_HIGH_WITHHOLDING this inp
         (check_MISSING_2307 this inp
         (check_EXCEEDS_VAT_THRESHOLD this inp
         (check_APPROACHING_VAT_THRESHOLD this inp
         (check_REG_NEEDS_UPDATE this inp
         (check_UNREG_WITH_INCOME this inp ([], 1)))))))))))))"

section \<open>RulesEngineService (rules-engine.service.ts)\<close>

definition TaxComputationRule_new :: RuleModuleFields where
  "TaxComputationRule_new =
     \<lparr>rm_id = ''TAX_COMPUTATION'', rm_code = ''TAX_COMPUTE'',
      rm_version = ''1.0.0'', rm_title = ''Tax Computation Engine''\<rparr>"

text \<open>The values stored in the input and output digests of a reasoning step.\<close>

datatype JsValue =
    JNumber real
  | JBoolean bool
  | JString string
  | JStrings "string list"
  | JUserType UserType
  | JRegistration RegistrationStatus
  | JRegime "TaxRegime option"
  | JDueDate DueDate

datatype StepExplanation =
    RegimeExplanation RecommendationReason
  | TaxComputedUsing bool
  | IdentifiedObligations nat
  | CalculatedDeadlines nat int
  | IdentifiedRiskFlags nat nat

record ReasoningStep =
  stepNumber :: nat
  rs_ruleModuleId :: string
  ruleModuleVersion :: string
  rs_input :: "(string \<times> JsValue) list"
  rs_output :: "(string \<times> JsValue) list"
  explanation :: StepExplanation

record Completeness =
  score :: int
  missingFields :: "string list"
  warnings :: "string list"

record ReasoningReceipt =
  steps :: "ReasoningStep list"
  explanationIds :: "string list"
  completeness :: Completeness

record AssessmentOutput =
  recommendedRegime :: "TaxRegime option"
  regimeComparison :: RegimeComparisonResult
  computedValues :: ComputedValues
  obligations :: "Obligation list"
  deadlines :: "Deadline list"
  riskFlags :: "RiskFlag list"
  reasoningReceipt :: ReasoningReceipt
  rulesEngineVersion :: string

datatype LogEntry =
    LogRunningAssessment int
  | DebugStep string
  | LogAssessmentComplete "TaxRegime option" real nat nat

text \<open>
  The service object: the five injected rule instances, its version string, and what its
  logger has written so far. This is all the state that outlives a call.
\<close>

record RulesEngineService =
  regimeRule :: RuleModuleFields
  obligationsRule :: RuleModuleFields
  deadlineRule :: RuleModuleFields
  computationRule :: RuleModuleFields
  riskRule :: RuleModuleFields
  VERSION :: string
  logger :: "LogEntry list"

definition RulesEngineService_new :: RulesEngineService where
  "RulesEngineService_new =
     \<lparr>regimeRule = RegimeDeterminationRule_new,
      obligationsRule = FilingObligationsRule_new,
      deadlineRule = DeadlineCalculationRule_new,
      computationRule = TaxComputationRule_new,
      riskRule = RiskAssessmentRule_new,
      VERSION = ''1.0.0'',
      logger = []\<rparr>"

text \<open>\<open>!input.tin\<close>: the identifier is absent or the empty string.\<close>

fun falsyStr :: "string option \<Rightarrow> bool" where
  "falsyStr None = True"
| "falsyStr (Some str) = (str = [])"

definition RulesEngineService_assessCompleteness :: "RuleInput \<Rightarrow> Completeness" where
  "RulesEngineService_assessCompleteness inp =
     (let missing0 = [];
          missing1 = (if falsyStr (tin inp)
                      then missing0 @ [''TIN (Tax Identification Number)''] else missing0);
          missing2 = (if length (incomeStreams inp) = 0
                      then missing1 @ [''Income streams''] else missing1);
          warnings0 = [];
          warnings1 = (if selectedRegime inp = Some UNDETERMINED
                       then warnings0 @ [''Tax regime not selected - using recommended regime'']
                       else warnings0);
          hasWithholdingWithout2307 =
            list_ex (\<lambda>s. hasWithholding s \<and> \<not> form2307Received s) (incomeStreams inp);
          warnings2 = (if hasWithholdingWithout2307
                       then warnings1 @ [''Some withholding taxes lack Form 2307 documentation'']
                       else warnings1);
          totalChecks = (10 :: real);
          passedChecks = totalChecks - real (length missing2) - real (length warnings2) * (5 / 10);
          sc = max 0 (min 100 ((passedChecks / totalChecks) * 100))
      in \<lparr>score = Math_round sc, missingFields = missing2, warnings = warnings2\<rparr>)"

text \<open>The regime the later rules work with.\<close>

definition effectiveRegimeOf :: "RuleInput \<Rightarrow> RegimeComparisonResult \<Rightarrow> TaxRegime option" where
  "effectiveRegimeOf inp rc =
     (if selectedRegime inp \<noteq> Some UNDETERMINED then selectedRegime inp
      else Some (recommendation rc))"

definition RulesEngineService_runAssessment ::
  "Host \<Rightarrow> RulesEngineService \<Rightarrow> RuleInput \<Rightarrow> AssessmentOutput \<times> RulesEngineService" where
  "RulesEngineService_runAssessment host this inp =
     (let log0 = logger this @ [LogRunningAssessment (taxYear inp)];
          log1 = log0 @ [DebugStep ''Step 1: Regime determination''];
          rc = RegimeDeterminationRule_execute (regimeRule this) inp;
          step1 = \<lparr>stepNumber = 1, rs_ruleModuleId = rm_id (regimeRule this),
                   ruleModuleVersion = rm_version (regimeRule this),
                   rs_input = [(''userType'', JUserType (userType inp)),
                               (''grossIncome'', JNumber
                                  (foldl (\<lambda>s i. s + grossAmount i) 0 (incomeStreams inp))),
                               (''hasEmploymentIncome'', JBoolean (hasEmploymentIncome inp))],
                   rs_output = [(''eligible8Percent'', JBoolean (eligible8Percent rc)),
                                (''recommendation'', JRegime (Some (recommendation rc)))],
                   explanation = RegimeExplanation (recommendationReason rc)\<rparr>;
          effectiveRegime = effectiveRegimeOf inp rc;
          effectiveInput = inp\<lparr>selectedRegime := effectiveRegime\<rparr>;
          log2 = log1 @ [DebugStep ''Step 2: Tax computation''];
          cv = TaxComputationRule_execute effectiveInput;
          step2 = \<lparr>stepNumber = 2, rs_ruleModuleId = rm_id (computationRule this),
                   ruleModuleVersion = rm_version (computationRule this),
                   rs_input = [(''regime'', JRegime effectiveRegime),
                               (''grossIncome'', JNumber (grossIncome cv)),
                               (''deductions'', JNumber (totalDeductions cv))],
                   rs_output = [(''taxableIncome'', JNumber (taxableIncome cv)),
                                (''estimatedTax'', JNumber (estimatedTax cv)),
                                (''netTaxPayable'', JNumber (netTaxPayable cv))],
                   explanation = TaxComputedUsing (effectiveRegime = Some EIGHT_PERCENT_FLAT)\<rparr>;
          log3 = log2 @ [DebugStep ''Step 3: Filing obligations''];
          obls = FilingObligationsRule_execute (obligationsRule this) effectiveInput;
          applicableCodes = map formCode (filter (\<lambda>ob. isApplicable ob) obls);
          step3 = \<lparr>stepNumber = 3, rs_ruleModuleId = rm_id (obligationsRule this),
                   ruleModuleVersion = rm_version (obligationsRule this),
                   rs_input = [(''userType'', JUserType (userType inp)),
                               (''regime'', JRegime effectiveRegime),
                               (''hasEmploymentIncome'', JBoolean (hasEmploymentIncome inp))],
                   rs_output = [(''applicableObligations'', JStrings applicableCodes),
                                (''totalObligations'', JNumber (real (length obls)))],
                   explanation = IdentifiedObligations (length applicableCodes)\<rparr>;
          log4 = log3 @ [DebugStep ''Step 4: Deadline calculation''];
          dls = DeadlineCalculationRule_execute host effectiveInput obls;
          step4 = \<lparr>stepNumber = 4, rs_ruleModuleId = rm_id (deadlineRule this),
                   ruleModuleVersion = rm_version (deadlineRule this),
                   rs_input = [(''taxYear'', JNumber (of_int (taxYear inp))),
                               (''obligations'', JStrings applicableCodes)],
                   rs_output = [(''totalDeadlines'', JNumber (real (length dls))),
                                (''nextDeadline'',
                                   (case dls of [] \<Rightarrow> JString ''None''
                                    | d # rest \<Rightarrow> JDueDate (dueDate d)))],
                   explanation = CalculatedDeadlines (length dls) (taxYear inp)\<rparr>;
          log5 = log4 @ [DebugStep ''Step 5: Risk assessment''];
          flags = RiskAssessmentRule_execute (riskRule this) effectiveInput;
          critical = length (filter (\<lambda>f. level f = CPA_REVIEW_REQUIRED) flags);
          step5 = \<lparr>stepNumber = 5, rs_ruleModuleId = rm_id (riskRule this),
                   ruleModuleVersion = rm_version (riskRule this),
                   rs_input = [(''registrationStatus'', JRegistration (registrationStatus inp)),
                               (''totalIncome'', JNumber (grossIncome cv)),
                               (''hasWithholding'', JBoolean
                                  (list_ex (\<lambda>s. hasWithholding s) (incomeStreams inp)))],
                   rs_output = [(''totalFlags'', JNumber (real (length flags))),
                                (''criticalFlags'', JNumber (real critical)),
                                (''warningFlags'', JNumber
                                   (real (length (filter (\<lambda>f. level f = WARNING) flags))))],
                   explanation = IdentifiedRiskFlags (length flags) critical\<rparr>;
          reasoningSteps = [step1, step2, step3, step4, step5];
          receipt = \<lparr>steps = reasoningSteps,
                     explanationIds =
                       map (\<lambda>s. rs_ruleModuleId s @ ''_v'' @ ruleModuleVersion s) reasoningSteps,
                     completeness = RulesEngineService_assessCompleteness inp\<rparr>;
          out = \<lparr>recommendedRegime = effectiveRegime, regimeComparison = rc,
                 computedValues = cv, obligations = obls, deadlines = dls,
                 riskFlags = flags, reasoningReceipt = receipt,
                 rulesEngineVersion = VERSION this\<rparr>;
          log6 = log5 @ [LogAssessmentComplete effectiveRegime (netTaxPayable cv)
                           (length applicableCodes) (length flags)]
      in (out, this\<lparr>logger := log6\<rparr>))"

section \<open>Inputs of the test suites\<close>

text \<open>
  The inputs the repository's tests build (\<open>createInput\<close>, \<open>createBaseInput\<close> and the
  streams they add), and a few variations of them.
\<close>

definition createInput :: RuleInput where
  "createInput =
     \<lparr>taxYear = 2024, userType = FREELANCER, registrationStatus = REGISTERED,
      hasEmploymentIncome = False, incomeStreams = [], expenses = [],
      selectedRegime = Some EIGHT_PERCENT_FLAT, tin = None\<rparr>"

definition createBaseInput :: RuleInput where
  "createBaseInput = createInput\<lparr>selectedRegime := Some UNDETERMINED\<rparr>"

definition freelanceStream :: "real \<Rightarrow> IncomeStreamData" where
  "freelanceStream gross =
     \<lparr>streamId = ''1'', incomeType = FREELANCE_SERVICE, grossAmount = gross,
      frequency = ONE_TIME, hasWithholding = False, withheldAmount = None,
      withholdingRate = None, form2307Received = False\<rparr>"

text \<open>Freelancer, one stream of 500,000, flat regime.\<close>

definition freelancer500kFlat :: RuleInput where
  "freelancer500kFlat = createInput\<lparr>incomeStreams := [freelanceStream 500000]\<rparr>"

text \<open>Freelancer, one stream of 600,000, regime not yet chosen.\<close>

definition freelancer600k :: RuleInput where
  "freelancer600k = createBaseInput\<lparr>incomeStreams := [freelanceStream 600000]\<rparr>"

text \<open>Freelancer, one stream of 3,500,000: above the VAT threshold.\<close>

definition freelancer3500k :: RuleInput where
  "freelancer3500k = createBaseInput\<lparr>incomeStreams := [freelanceStream 3500000]\<rparr>"

text \<open>Freelancer, 500,000 under the flat regime, of which 14,999.99 were withheld.\<close>

definition freelancer500kWithheld :: RuleInput where
  "freelancer500kWithheld =
     createInput\<lparr>incomeStreams :=
       [(freelanceStream 500000)\<lparr>hasWithholding := True, withheldAmount := Some (1499999 / 100),
          form2307Received := True\<rparr>]\<rparr>"

text \<open>The mixed-income taxpayer of the eligibility test: a salary and a freelance stream.\<close>

definition mixedIncomeTaxpayer :: RuleInput where
  "mixedIncomeTaxpayer =
     createBaseInput\<lparr>userType := MIXED_INCOME, hasEmploymentIncome := True,
       incomeStreams :=
         [\<lparr>streamId = ''1'', incomeType = EMPLOYMENT, grossAmount = 500000,
           frequency = MONTHLY, hasWithholding = True, withheldAmount = Some 50000,
           withholdingRate = None, form2307Received = False\<rparr>,
          (freelanceStream 300000)\<lparr>streamId := ''2''\<rparr>]\<rparr>"

definition freelancerGraduated :: RuleInput where
  "freelancerGraduated = createInput\<lparr>selectedRegime := Some GRADUATED_RATES\<rparr>"

definition mixedIncomeGraduated :: RuleInput where
  "mixedIncomeGraduated =
     createInput\<lparr>userType := MIXED_INCOME, hasEmploymentIncome := True,
       selectedRegime := Some GRADUATED_RATES\<rparr>"

definition notRegisteredFreelancer :: RuleInput where
  "notRegisteredFreelancer = createInput\<lparr>registrationStatus := NOT_REGISTERED\<rparr>"

text \<open>A host on UTC, and one in Manila (UTC+8).\<close>

definition utcHost :: Host where
  "utcHost = \<lparr>tzOffsetMinutes = 0\<rparr>"

definition manilaHost :: Host where
  "manilaHost = \<lparr>tzOffsetMinutes = 480\<rparr>"

text \<open>The obligations the filing rule emits for forms 1901 and 0605.\<close>

definition obligation1901 :: Obligation where
  "obligation1901 =
     \<lparr>obl_id = ''OBL-4'', formCode = ''1901'',
      formName = ''Application for Registration (Self-Employed)'', obl_frequency = annually,
      isApplicable = True, obl_ruleModuleId = ''FILING_OBLIGATIONS'', obl_notes = MustRegister\<rparr>"

definition obligation0605 :: Obligation where
  "obligation0605 =
     \<lparr>obl_id = ''OBL-4'', formCode = ''0605'',
      formName = ''Payment Form (Annual Registration Fee)'', obl_frequency = annually,
      isApplicable = True, obl_ruleModuleId = ''FILING_OBLIGATIONS'',
      obl_notes = RegistrationFeeDue\<rparr>"

section \<open>Shared lemmas\<close>

lemma foldl_add_sum_list:
  "foldl (\<lambda>acc x. acc + f x) a xs = a + sum_list (map f xs)"
  by (induction xs arbitrary: a) (simp_all add: add.assoc)

lemma fst_push: "fst (push mk st) = fst st @ [mk (snd st)]"
  by (simp add: push_def)

lemma snd_push: "snd (push mk st) = Suc (snd st)"
  by (simp add: push_def)

lemma tc_bracketLoop_nonneg:
  "list_all (\<lambda>b. 0 \<le> baseTax b \<and> 0 \<le> rate b) bs \<Longrightarrow>
   TaxComputationRule_bracketLoop bs t = Some x \<Longrightarrow> 0 \<le> x"
  by (induction bs) (auto split: if_splits simp: Let_def)

lemma tc_bracketLoop_returns:
  "list_ex (\<lambda>b. maxB b = None) bs \<Longrightarrow> TaxComputationRule_bracketLoop bs t \<noteq> None"
  by (induction bs) (auto simp: Let_def)

lemma brackets_nonneg:
  "list_all (\<lambda>b. 0 \<le> baseTax b \<and> 0 \<le> rate b) GRADUATED_TAX_BRACKETS_2023"
  by (simp add: GRADUATED_TAX_BRACKETS_2023_def)

lemma brackets_open_ended: "list_ex (\<lambda>b. maxB b = None) GRADUATED_TAX_BRACKETS_2023"
  by (simp add: GRADUATED_TAX_BRACKETS_2023_def)

lemma tc_applyGraduatedRates_nonneg: "0 \<le> TaxComputationRule_applyGraduatedRates t"
proof -
  obtain x where x: "TaxComputationRule_bracketLoop GRADUATED_TAX_BRACKETS_2023 t = Some x"
    using tc_bracketLoop_returns [OF brackets_open_ended, of t] by blast
  from tc_bracketLoop_nonneg [OF brackets_nonneg x] x show ?thesis
    by (simp add: TaxComputationRule_applyGraduatedRates_def)
qed

lemma bracketLoops_agree:
  "RegimeDeterminationRule_bracketLoop bs t = TaxComputationRule_bracketLoop bs t"
  by (induction bs) simp_all

lemma applyGraduatedRates_agree:
  "RegimeDeterminationRule_applyGraduatedRates t = TaxComputationRule_applyGraduatedRates t"
  by (simp add: RegimeDeterminationRule_applyGraduatedRates_def
      TaxComputationRule_applyGraduatedRates_def bracketLoops_agree)

lemma credits_nonneg:
  assumes "validRuleInput inp"
  shows "0 \<le> TaxComputationRule_calculateWithholdingCredits inp"
proof -
  have "list_all (\<lambda>s. 0 \<le> orZero (withheldAmount s)) xs \<Longrightarrow>
        0 \<le> sum_list (map (\<lambda>s. orZero (withheldAmount s)) (filter P xs))"
    for xs :: "IncomeStreamData list" and P
    by (induction xs) auto
  moreover have "list_all (\<lambda>s. 0 \<le> orZero (withheldAmount s)) (incomeStreams inp)"
    using assms by (simp add: validRuleInput_def list_all_iff)
  ultimately show ?thesis
    by (simp add: TaxComputationRule_calculateWithholdingCredits_def foldl_add_sum_list)
qed

lemma estimatedTax_cases:
  "estimatedTax (TaxComputationRule_execute inp) =
     (if selectedRegime inp = Some EIGHT_PERCENT_FLAT
      then max 0 (TaxComputationRule_calculateBusinessIncome inp - 250000) * (8 / 100)
      else TaxComputationRule_applyGraduatedRates
             (max 0 (TaxComputationRule_calculateBusinessIncome inp
                - (if TaxComputationRule_calculateTotalDeductions inp
                        \<le> TaxComputationRule_calculateBusinessIncome inp * (40 / 100)
                   then TaxComputationRule_calculateBusinessIncome inp * (40 / 100)
                   else TaxComputationRule_calculateTotalDeductions inp))))"
  by (simp add: TaxComputationRule_execute_def Let_def TaxComputationRule_compute8PercentTax_def
      TaxComputationRule_computeGraduatedTax_def EIGHT_PERCENT_RATE_def OSD_RATE_def
      PERSONAL_EXEMPTION_THRESHOLD_def split: prod.splits)

lemma estimatedTax_nonneg: "0 \<le> estimatedTax (TaxComputationRule_execute inp)"
  using tc_applyGraduatedRates_nonneg by (simp add: estimatedTax_cases)

lemma netTaxPayable_eq:
  "netTaxPayable (TaxComputationRule_execute inp) =
     max 0 (estimatedTax (TaxComputationRule_execute inp)
              - TaxComputationRule_calculateWithholdingCredits inp)"
  by (simp add: TaxComputationRule_execute_def Let_def split: prod.splits)

lemma quarterlyPayments_eq:
  "quarterlyPayments (TaxComputationRule_execute inp) =
     TaxComputationRule_calculateQuarterlyPayments
       (netTaxPayable (TaxComputationRule_execute inp)) (selectedRegime inp)"
  by (simp add: TaxComputationRule_execute_def Let_def split: prod.splits)

section \<open>Tax computation\<close>

text \<open>
  Claim C1. For every valid input (no negative gross amount, withheld amount or expense
  amount), the values computed by \<open>TaxComputationRule.execute\<close> satisfy
  \<open>estimatedTax \<ge> 0\<close>, \<open>netTaxPayable \<ge> 0\<close> and \<open>netTaxPayable \<le> estimatedTax\<close>.
\<close>

theorem tax_outputs_nonnegative:
  assumes "validRuleInput inp"
  shows "0 \<le> estimatedTax (TaxComputationRule_execute inp)
       \<and> 0 \<le> netTaxPayable (TaxComputationRule_execute inp)
       \<and> netTaxPayable (TaxComputationRule_execute inp)
           \<le> estimatedTax (TaxComputationRule_execute inp)"
  using estimatedTax_nonneg [of inp] credits_nonneg [OF assms] by (simp add: netTaxPayable_eq)

lemma valid_freelancer500kWithheld: "validRuleInput freelancer500kWithheld"
  by (simp add: validRuleInput_def freelancer500kWithheld_def createInput_def freelanceStream_def)

theorem tax_outputs_nonnegative_witness:
  "validRuleInput freelancer500kWithheld
   \<and> 0 \<le> estimatedTax (TaxComputationRule_execute freelancer500kWithheld)
   \<and> 0 \<le> netTaxPayable (TaxComputationRule_execute freelancer500kWithheld)
   \<and> netTaxPayable (TaxComputationRule_execute freelancer500kWithheld)
       \<le> estimatedTax (TaxComputationRule_execute freelancer500kWithheld)"
  using tax_outputs_nonnegative [OF valid_freelancer500kWithheld] valid_freelancer500kWithheld
  by simp


lemma netTax_freelancer500kWithheld:
  "netTaxPayable (TaxComputationRule_execute freelancer500kWithheld) = 500001 / 100"
  by (simp add: netTaxPayable_eq estimatedTax_cases freelancer500kWithheld_def createInput_def
      freelanceStream_def TaxComputationRule_calculateBusinessIncome_def
      TaxComputationRule_calculateWithholdingCredits_def)

lemma annual_equals_quarter:
  "annual (TaxComputationRule_calculateQuarterlyPayments t r)
     = q1 (TaxComputationRule_calculateQuarterlyPayments t r)"
  by (simp add: TaxComputationRule_calculateQuarterlyPayments_def Let_def)

text \<open>
  Claim C2 says that the fourth payment is \<open>round2 (netTaxPayable - quarterly * 3)\<close> with
  the rounded quarterly amount, so that the four payments add up to \<open>netTaxPayable\<close> to
  the cent. The code subtracts the unrounded quarter three times, which makes the fourth
  payment equal to the other three (\<open>annual_equals_quarter\<close>). For a freelancer with
  500,000 under the flat regime and 14,999.99 withheld, the net tax is 5,000.01, all four
  payments are 1,250.00 and their sum is 5,000.00; the fourth payment of the claim would
  be 1,250.01.
\<close>

theorem quarterly_split_drops_a_cent:
  "netTaxPayable (TaxComputationRule_execute freelancer500kWithheld) = 500001 / 100
   \<and> quarterlyPayments (TaxComputationRule_execute freelancer500kWithheld)
       = \<lparr>q1 = 1250, q2 = 1250, q3 = 1250, annual = 1250\<rparr>
   \<and> round2 (netTaxPayable (TaxComputationRule_execute freelancer500kWithheld) - 1250 * 3)
       = 125001 / 100"
  by (simp add: quarterlyPayments_eq netTax_freelancer500kWithheld
      TaxComputationRule_calculateQuarterlyPayments_def Math_round_def round2_def)


text \<open>
  Claim C3 says that a taxable income of exactly 250,000 yields tax 0 and one of exactly
  400,000 yields 22,500, in both modules. The first holds. For the second the loop takes
  the 15% bracket and subtracts its \<open>min\<close> of 250,001, so both modules return
  149,999 * 0.15 = 22,499.85.
\<close>

theorem tax_at_400000_misses_22500:
  "TaxComputationRule_applyGraduatedRates 250000 = 0
   \<and> TaxComputationRule_applyGraduatedRates 400000 = 2249985 / 100
   \<and> RegimeDeterminationRule_applyGraduatedRates 250000 = 0
   \<and> RegimeDeterminationRule_applyGraduatedRates 400000 = 2249985 / 100"
  by (simp add: TaxComputationRule_applyGraduatedRates_def
      RegimeDeterminationRule_applyGraduatedRates_def GRADUATED_TAX_BRACKETS_2023_def)

section \<open>Regime determination\<close>

lemma checkEligibility_mixed:
  "userType inp = MIXED_INCOME \<Longrightarrow>
   RegimeDeterminationRule_checkEligibility inp = (False, OnlySelfEmployedCanElect)"
  by (simp add: RegimeDeterminationRule_checkEligibility_def Let_def)

text \<open>
  Claim C4 says that a mixed-income taxpayer with business income of at most 3,000,000 is
  reported eligible for the flat regime. \<open>checkEligibility\<close> tests the user type against
  a list that leaves \<open>MIXED_INCOME\<close> out, before the branch that grants mixed-income
  taxpayers the option: for the mixed-income taxpayer of the repository's eligibility
  test (business income 300,000) it reports \<open>eligible8Percent = false\<close>.
\<close>

theorem mixed_income_reported_ineligible:
  "eligible8Percent (RegimeDeterminationRule_execute RegimeDeterminationRule_new mixedIncomeTaxpayer)
     = False
   \<and> eligibilityReason (RegimeDeterminationRule_execute RegimeDeterminationRule_new mixedIncomeTaxpayer)
     = OnlySelfEmployedCanElect
   \<and> RegimeDeterminationRule_calculateBusinessIncome mixedIncomeTaxpayer = 300000"
  by (simp add: RegimeDeterminationRule_execute_def Let_def checkEligibility_mixed
      mixedIncomeTaxpayer_def createBaseInput_def createInput_def freelanceStream_def
      RegimeDeterminationRule_calculateBusinessIncome_def split: prod.splits)


lemma rd_businessIncome_sum:
  "RegimeDeterminationRule_calculateBusinessIncome inp =
     sum_list (map grossAmount (filter (\<lambda>s. incomeType s \<noteq> EMPLOYMENT) (incomeStreams inp)))"
  by (simp add: RegimeDeterminationRule_calculateBusinessIncome_def foldl_add_sum_list)

lemma recommendation_when_ineligible:
  "\<not> fst (RegimeDeterminationRule_checkEligibility inp) \<Longrightarrow>
   recommendation (RegimeDeterminationRule_execute this inp) = GRADUATED_RATES"
  by (cases "RegimeDeterminationRule_checkEligibility inp")
     (simp add: RegimeDeterminationRule_execute_def Let_def)

text \<open>
  Claim C5. Whenever the business income (the sum of the gross amounts of the
  non-employment streams) exceeds 3,000,000, \<open>RegimeDeterminationRule.execute\<close>
  recommends the graduated rates.
\<close>

theorem flat_never_recommended_above_vat_threshold:
  assumes "3000000 < sum_list (map grossAmount
             (filter (\<lambda>s. incomeType s \<noteq> EMPLOYMENT) (incomeStreams inp)))"
  shows "recommendation (RegimeDeterminationRule_execute this inp) = GRADUATED_RATES"
proof -
  have "VAT_THRESHOLD < RegimeDeterminationRule_calculateBusinessIncome inp"
    using assms by (simp add: rd_businessIncome_sum VAT_THRESHOLD_def)
  then have "\<not> fst (RegimeDeterminationRule_checkEligibility inp)"
    by (simp add: RegimeDeterminationRule_checkEligibility_def Let_def)
  then show ?thesis by (rule recommendation_when_ineligible)
qed

theorem flat_never_recommended_above_vat_threshold_witness:
  "3000000 < sum_list (map grossAmount
      (filter (\<lambda>s. incomeType s \<noteq> EMPLOYMENT) (incomeStreams freelancer3500k)))
   \<and> recommendation (RegimeDeterminationRule_execute RegimeDeterminationRule_new freelancer3500k)
       = GRADUATED_RATES"
proof -
  have h: "3000000 < sum_list (map grossAmount
      (filter (\<lambda>s. incomeType s \<noteq> EMPLOYMENT) (incomeStreams freelancer3500k)))"
    by (simp add: freelancer3500k_def createBaseInput_def createInput_def freelanceStream_def)
  from flat_never_recommended_above_vat_threshold [OF h, of RegimeDeterminationRule_new] h
  show ?thesis by simp
qed


section \<open>Filing obligations\<close>

lemma other_forms_emit_no_2551Q:
  "filter (\<lambda>ob. formCode ob = ''2551Q'') (fst (emit_1701Q this inp st))
     = filter (\<lambda>ob. formCode ob = ''2551Q'') (fst st)"
  "filter (\<lambda>ob. formCode ob = ''2551Q'') (fst (emit_1701 this inp st))
     = filter (\<lambda>ob. formCode ob = ''2551Q'') (fst st)"
  "filter (\<lambda>ob. formCode ob = ''2551Q'') (fst (emit_1901 this inp st))
     = filter (\<lambda>ob. formCode ob = ''2551Q'') (fst st)"
  "filter (\<lambda>ob. formCode ob = ''2551Q'') (fst (emit_0605 this inp st))
     = filter (\<lambda>ob. formCode ob = ''2551Q'') (fst st)"
  "filter (\<lambda>ob. formCode ob = ''2551Q'') (fst (emit_2307 this inp st))
     = filter (\<lambda>ob. formCode ob = ''2551Q'') (fst st)"
  "filter (\<lambda>ob. formCode ob = ''2551Q'') (fst (emit_2316 this inp st))
     = filter (\<lambda>ob. formCode ob = ''2551Q'') (fst st)"
  "filter (\<lambda>ob. formCode ob = ''2551Q'') (fst (emit_BOOKS this inp st))
     = filter (\<lambda>ob. formCode ob = ''2551Q'') (fst st)"
  by (simp_all add: emit_1701Q_def emit_1701_def emit_1901_def emit_0605_def emit_2307_def
      emit_2316_def emit_BOOKS_def fst_push)

lemma emit_2551Q_records:
  "map isApplicable (filter (\<lambda>ob. formCode ob = ''2551Q'') (fst (emit_2551Q this inp st)))
     = map isApplicable (filter (\<lambda>ob. formCode ob = ''2551Q'') (fst st))
       @ (if FilingObligationsRule_requiresPercentageTax inp then [True]
          else if selectedRegime inp = Some EIGHT_PERCENT_FLAT then [False]
          else [])"
  by (simp add: emit_2551Q_def fst_push)

lemma percentage_tax_records:
  "map isApplicable (filter (\<lambda>ob. formCode ob = ''2551Q'')
       (FilingObligationsRule_execute this inp)) =
     (if FilingObligationsRule_requiresPercentageTax inp then [True]
      else if selectedRegime inp = Some EIGHT_PERCENT_FLAT then [False]
      else [])"
  unfolding FilingObligationsRule_execute_def other_forms_emit_no_2551Q emit_2551Q_records
  by simp

lemma list_ex_filter_map:
  "list_ex (\<lambda>x. P x \<and> f x) xs \<longleftrightarrow> True \<in> set (map f (filter P xs))"
  "list_ex (\<lambda>x. P x \<and> \<not> f x) xs \<longleftrightarrow> False \<in> set (map f (filter P xs))"
  by (induction xs) auto

lemma list_ex_filter_nonempty: "list_ex P xs \<longleftrightarrow> map f (filter P xs) \<noteq> []"
  by (induction xs) auto

text \<open>
  Claim C6, amended. Under the flat regime \<open>FilingObligationsRule.execute\<close> emits a 2551Q
  record with \<open>isApplicable = false\<close>. Under the graduated rates it emits a 2551Q record
  with \<open>isApplicable = true\<close> when the user type is Freelancer, SelfEmployed or
  MicroSmallBusiness; for a MixedIncome taxpayer under the graduated rates it emits no
  2551Q record at all, because \<open>requiresPercentageTax\<close> lists only the three other types.
\<close>

theorem percentage_tax_record_by_regime:
  "(selectedRegime inp = Some EIGHT_PERCENT_FLAT \<longrightarrow>
      list_ex (\<lambda>ob. formCode ob = ''2551Q'' \<and> \<not> isApplicable ob)
        (FilingObligationsRule_execute this inp))
   \<and> (selectedRegime inp = Some GRADUATED_RATES \<and> userType inp \<noteq> MIXED_INCOME \<longrightarrow>
      list_ex (\<lambda>ob. formCode ob = ''2551Q'' \<and> isApplicable ob)
        (FilingObligationsRule_execute this inp))
   \<and> (selectedRegime inp = Some GRADUATED_RATES \<and> userType inp = MIXED_INCOME \<longrightarrow>
      \<not> list_ex (\<lambda>ob. formCode ob = ''2551Q'') (FilingObligationsRule_execute this inp))"
proof (intro conjI impI)
  assume "selectedRegime inp = Some EIGHT_PERCENT_FLAT"
  then have "map isApplicable (filter (\<lambda>ob. formCode ob = ''2551Q'')
      (FilingObligationsRule_execute this inp)) = [False]"
    by (simp add: percentage_tax_records FilingObligationsRule_requiresPercentageTax_def)
  then show "list_ex (\<lambda>ob. formCode ob = ''2551Q'' \<and> \<not> isApplicable ob)
      (FilingObligationsRule_execute this inp)"
    by (simp only: list_ex_filter_map(2) [where f = isApplicable]) simp
next
  assume "selectedRegime inp = Some GRADUATED_RATES \<and> userType inp \<noteq> MIXED_INCOME"
  then have "map isApplicable (filter (\<lambda>ob. formCode ob = ''2551Q'')
      (FilingObligationsRule_execute this inp)) = [True]"
    by (cases "userType inp")
       (simp_all add: percentage_tax_records FilingObligationsRule_requiresPercentageTax_def)
  then show "list_ex (\<lambda>ob. formCode ob = ''2551Q'' \<and> isApplicable ob)
      (FilingObligationsRule_execute this inp)"
    by (simp only: list_ex_filter_map) simp
next
  assume "selectedRegime inp = Some GRADUATED_RATES \<and> userType inp = MIXED_INCOME"
  then have "map isApplicable (filter (\<lambda>ob. formCode ob = ''2551Q'')
      (FilingObligationsRule_execute this inp)) = []"
    by (simp add: percentage_tax_records FilingObligationsRule_requiresPercentageTax_def)
  then show "\<not> list_ex (\<lambda>ob. formCode ob = ''2551Q'') (FilingObligationsRule_execute this inp)"
    by (simp only: list_ex_filter_nonempty [where f = isApplicable]) simp
qed

theorem percentage_tax_record_by_regime_witness:
  "selectedRegime createInput = Some EIGHT_PERCENT_FLAT
   \<and> list_ex (\<lambda>ob. formCode ob = ''2551Q'' \<and> \<not> isApplicable ob)
        (FilingObligationsRule_execute FilingObligationsRule_new createInput)
   \<and> selectedRegime freelancerGraduated = Some GRADUATED_RATES
   \<and> userType freelancerGraduated \<noteq> MIXED_INCOME
   \<and> list_ex (\<lambda>ob. formCode ob = ''2551Q'' \<and> isApplicable ob)
        (FilingObligationsRule_execute FilingObligationsRule_new freelancerGraduated)
   \<and> selectedRegime mixedIncomeGraduated = Some GRADUATED_RATES
   \<and> userType mixedIncomeGraduated = MIXED_INCOME
   \<and> \<not> list_ex (\<lambda>ob. formCode ob = ''2551Q'')
        (FilingObligationsRule_execute FilingObligationsRule_new mixedIncomeGraduated)"
  using percentage_tax_record_by_regime [of createInput FilingObligationsRule_new]
    percentage_tax_record_by_regime [of freelancerGraduated FilingObligationsRule_new]
    percentage_tax_record_by_regime [of mixedIncomeGraduated FilingObligationsRule_new]
  by (simp add: createInput_def freelancerGraduated_def mixedIncomeGraduated_def)

text \<open>
  The claim as stated fails for a mixed-income taxpayer who selected the graduated rates:
  no applicable 2551Q record is emitted.
\<close>

theorem mixed_income_graduated_has_no_percentage_tax_record:
  "selectedRegime mixedIncomeGraduated = Some GRADUATED_RATES
   \<and> \<not> list_ex (\<lambda>ob. formCode ob = ''2551Q'' \<and> isApplicable ob)
        (FilingObligationsRule_execute FilingObligationsRule_new mixedIncomeGraduated)"
proof -
  have "map isApplicable (filter (\<lambda>ob. formCode ob = ''2551Q'')
      (FilingObligationsRule_execute FilingObligationsRule_new mixedIncomeGraduated)) = []"
    by (simp add: percentage_tax_records FilingObligationsRule_requiresPercentageTax_def
        mixedIncomeGraduated_def createInput_def)
  then have "\<not> list_ex (\<lambda>ob. formCode ob = ''2551Q'' \<and> isApplicable ob)
      (FilingObligationsRule_execute FilingObligationsRule_new mixedIncomeGraduated)"
    by (simp only: list_ex_filter_map) simp
  then show ?thesis by (simp add: mixedIncomeGraduated_def createInput_def)
qed

section \<open>Deadlines\<close>

lemma obligations_of_the_filing_rule:
  "obligation1901 \<in> set (FilingObligationsRule_execute FilingObligationsRule_new notRegisteredFreelancer)"
  "obligation0605 \<in> set (FilingObligationsRule_execute FilingObligationsRule_new createInput)"
  by code_simp code_simp

lemma manila_prints_the_day_before:
  "map dueDate (DeadlineCalculationRule_execute manilaHost createInput [obligation0605])
   = [DueOn \<lparr>isoYear = 2024, isoMonth = 1, isoDay = 30\<rparr>,
      DueOn \<lparr>isoYear = 2025, isoMonth = 4, isoDay = 14\<rparr>]"
  by code_simp

text \<open>
  Claim C7 says that every deadline emitted for form 0605 is due on 31 January of the tax
  year and that every deadline emitted for form 1901 is the sentinel \<open>ASAP\<close> with no
  reminder offsets. The filing rule emits both obligations with frequency \<open>annual\<close>
  (\<open>obligations_of_the_filing_rule\<close>), and the branch for annual obligations is an
  independent \<open>if\<close> that runs before the two special cases: for tax year 2024 each form
  also gets a deadline on 15 April 2025 with the reminder offsets 60, 30, 14, 7, 3, 1.
  (On a host east of UTC every printed date is moreover one day early,
  \<open>manila_prints_the_day_before\<close>.)
\<close>

theorem registration_forms_get_a_generic_annual_deadline:
  "map (\<lambda>d. (dl_formCode d, dueDate d, reminderDays d))
     (DeadlineCalculationRule_execute utcHost notRegisteredFreelancer [obligation1901])
   = [(''1901'', ASAP, []),
      (''1901'', DueOn \<lparr>isoYear = 2025, isoMonth = 4, isoDay = 15\<rparr>, [60, 30, 14, 7, 3, 1])]
   \<and> map (\<lambda>d. (dl_formCode d, dueDate d, reminderDays d))
     (DeadlineCalculationRule_execute utcHost createInput [obligation0605])
   = [(''0605'', DueOn \<lparr>isoYear = 2024, isoMonth = 1, isoDay = 31\<rparr>, [30, 14, 7]),
      (''0605'', DueOn \<lparr>isoYear = 2025, isoMonth = 4, isoDay = 15\<rparr>, [60, 30, 14, 7, 3, 1])]"
  by code_simp

section \<open>The flat regime\<close>

text \<open>
  Claim C8. Under the flat regime \<open>estimatedTax\<close> is
  \<open>max 0 (businessIncome - 250,000) * 0.08\<close>, where the business income is the sum of the
  gross amounts of the non-employment streams; a freelancer with one stream of 500,000
  under the flat regime gets \<open>estimatedTax = 20,000\<close>, and the regime comparison for a
  freelancer with gross 600,000 computes the flat tax as 28,000.
\<close>

theorem flat_tax_formula:
  "(selectedRegime inp = Some EIGHT_PERCENT_FLAT \<longrightarrow>
      estimatedTax (TaxComputationRule_execute inp) =
        max 0 (sum_list (map grossAmount
                 (filter (\<lambda>s. incomeType s \<noteq> EMPLOYMENT) (incomeStreams inp))) - 250000)
          * (8 / 100))
   \<and> estimatedTax (TaxComputationRule_execute freelancer500kFlat) = 20000
   \<and> re_estimatedTax (eightPercent
         (RegimeDeterminationRule_execute RegimeDeterminationRule_new freelancer600k)) = 28000"
proof (intro conjI impI)
  assume "selectedRegime inp = Some EIGHT_PERCENT_FLAT"
  then show "estimatedTax (TaxComputationRule_execute inp) =
        max 0 (sum_list (map grossAmount
                 (filter (\<lambda>s. incomeType s \<noteq> EMPLOYMENT) (incomeStreams inp))) - 250000)
          * (8 / 100)"
    by (simp add: TaxComputationRule_execute_def Let_def
        TaxComputationRule_compute8PercentTax_def TaxComputationRule_calculateBusinessIncome_def
        foldl_add_sum_list PERSONAL_EXEMPTION_THRESHOLD_def EIGHT_PERCENT_RATE_def)
next
  show "estimatedTax (TaxComputationRule_execute freelancer500kFlat) = 20000"
    by (simp add: TaxComputationRule_execute_def Let_def
        TaxComputationRule_compute8PercentTax_def TaxComputationRule_calculateBusinessIncome_def
        PERSONAL_EXEMPTION_THRESHOLD_def EIGHT_PERCENT_RATE_def
        freelancer500kFlat_def createInput_def freelanceStream_def)
next
  show "re_estimatedTax (eightPercent
         (RegimeDeterminationRule_execute RegimeDeterminationRule_new freelancer600k)) = 28000"
    by (simp add: RegimeDeterminationRule_execute_def Let_def
        RegimeDeterminationRule_checkEligibility_def
        RegimeDeterminationRule_calculate8PercentTax_def
        RegimeDeterminationRule_calculateBusinessIncome_def
        PERSONAL_EXEMPTION_THRESHOLD_def EIGHT_PERCENT_RATE_def VAT_THRESHOLD_def
        freelancer600k_def createBaseInput_def createInput_def freelanceStream_def)
qed

theorem flat_tax_formula_witness:
  "selectedRegime freelancer500kFlat = Some EIGHT_PERCENT_FLAT
   \<and> estimatedTax (TaxComputationRule_execute freelancer500kFlat)
       = max 0 (500000 - 250000) * (8 / 100)"
  using flat_tax_formula [of freelancer500kFlat]
  by (simp add: freelancer500kFlat_def createInput_def freelanceStream_def)

section \<open>The orchestrator\<close>

text \<open>
  Claim C9 says that \<open>runAssessment\<close> is deterministic: the same input always yields the
  same output, with no dependence on hidden state or on the environment. The deadline
  rule builds every \<open>Date\<close> at midnight in the time zone of the host and prints it with
  \<open>toISOString\<close>, which is in UTC, so the output depends on where the process runs. For
  the input \<open>createInput\<close> of the repository's tests, a host on UTC reports the
  registration fee due on 2024-01-31 and the annual return on 2025-04-15; a host in
  Manila reports 2024-01-30 and 2025-04-14, and every other due date a day early too.
\<close>

theorem due_dates_depend_on_the_host_time_zone:
  "map (\<lambda>d. (dl_formCode d, dueDate d))
     (deadlines (fst (RulesEngineService_runAssessment utcHost RulesEngineService_new createInput)))
   = [(''0605'', DueOn \<lparr>isoYear = 2024, isoMonth = 1, isoDay = 31\<rparr>),
      (''1701Q'', DueOn \<lparr>isoYear = 2024, isoMonth = 5, isoDay = 15\<rparr>),
      (''1701Q'', DueOn \<lparr>isoYear = 2024, isoMonth = 8, isoDay = 15\<rparr>),
      (''1701Q'', DueOn \<lparr>isoYear = 2024, isoMonth = 11, isoDay = 15\<rparr>),
      (''1701'', DueOn \<lparr>isoYear = 2025, isoMonth = 4, isoDay = 15\<rparr>),
      (''0605'', DueOn \<lparr>isoYear = 2025, isoMonth = 4, isoDay = 15\<rparr>),
      (''BOOKS'', DueOn \<lparr>isoYear = 2025, isoMonth = 4, isoDay = 15\<rparr>)]
   \<and> map (\<lambda>d. (dl_formCode d, dueDate d))
     (deadlines (fst (RulesEngineService_runAssessment manilaHost RulesEngineService_new createInput)))
   = [(''0605'', DueOn \<lparr>isoYear = 2024, isoMonth = 1, isoDay = 30\<rparr>),
      (''1701Q'', DueOn \<lparr>isoYear = 2024, isoMonth = 5, isoDay = 14\<rparr>),
      (''1701Q'', DueOn \<lparr>isoYear = 2024, isoMonth = 8, isoDay = 14\<rparr>),
      (''1701Q'', DueOn \<lparr>isoYear = 2024, isoMonth = 11, isoDay = 14\<rparr>),
      (''1701'', DueOn \<lparr>isoYear = 2025, isoMonth = 4, isoDay = 14\<rparr>),
      (''0605'', DueOn \<lparr>isoYear = 2025, isoMonth = 4, isoDay = 14\<rparr>),
      (''BOOKS'', DueOn \<lparr>isoYear = 2025, isoMonth = 4, isoDay = 14\<rparr>)]"
  by code_simp

lemma recommendation_concrete:
  "recommendation (RegimeDeterminationRule_execute this inp) \<noteq> UNDETERMINED"
  by (cases "RegimeDeterminationRule_checkEligibility inp")
     (simp add: RegimeDeterminationRule_execute_def Let_def)

lemma effectiveRegime_not_undetermined:
  "effectiveRegimeOf inp (RegimeDeterminationRule_execute this inp) \<noteq> Some UNDETERMINED"
  by (simp add: effectiveRegimeOf_def recommendation_concrete)

lemma other_checks_push_no_REGIME_NOT_SELECTED:
  "filter (\<lambda>f. code f = ''REGIME_NOT_SELECTED'') (fst (check_UNREG_WITH_INCOME this inp st))
     = filter (\<lambda>f. code f = ''REGIME_NOT_SELECTED'') (fst st)"
  "filter (\<lambda>f. code f = ''REGIME_NOT_SELECTED'') (fst (check_REG_NEEDS_UPDATE this inp st))
     = filter (\<lambda>f. code f = ''REGIME_NOT_SELECTED'') (fst st)"
  "filter (\<lambda>f. code f = ''REGIME_NOT_SELECTED'') (fst (check_APPROACHING_VAT_THRESHOLD this inp st))
     = filter (\<lambda>f. code f = ''REGIME_NOT_SELECTED'') (fst st)"
  "filter (\<lambda>f. code f = ''REGIME_NOT_SELECTED'') (fst (check_EXCEEDS_VAT_THRESHOLD this inp st))
     = filter (\<lambda>f. code f = ''REGIME_NOT_SELECTED'') (fst st)"
  "filter (\<lambda>f. code f = ''REGIME_NOT_SELECTED'') (fst (check_MISSING_2307 this inp st))
     = filter (\<lambda>f. code f = ''REGIME_NOT_SELECTED'') (fst st)"
  "filter (\<lambda>f. code f = ''REGIME_NOT_SELECTED'') (fst (check_HIGH_WITHHOLDING this inp st))
     = filter (\<lambda>f. code f = ''REGIME_NOT_SELECTED'') (fst st)"
  "filter (\<lambda>f. code f = ''REGIME_NOT_SELECTED'') (fst (check_8PCT_HIGH_EXPENSES this inp st))
     = filter (\<lambda>f. code f = ''REGIME_NOT_SELECTED'') (fst st)"
  "filter (\<lambda>f. code f = ''REGIME_NOT_SELECTED'') (fst (check_NO_INCOME_RECORDED this inp st))
     = filter (\<lambda>f. code f = ''REGIME_NOT_SELECTED'') (fst st)"
  "filter (\<lambda>f. code f = ''REGIME_NOT_SELECTED'') (fst (check_MIXED_NO_EMPLOYMENT this inp st))
     = filter (\<lambda>f. code f = ''REGIME_NOT_SELECTED'') (fst st)"
  "filter (\<lambda>f. code f = ''REGIME_NOT_SELECTED'') (fst (check_LARGE_INCOME_NO_DOCS this inp st))
     = filter (\<lambda>f. code f = ''REGIME_NOT_SELECTED'') (fst st)"
  "filter (\<lambda>f. code f = ''REGIME_NOT_SELECTED'') (fst (check_EXPENSE_DOCS_REMINDER this inp st))
     = filter (\<lambda>f. code f = ''REGIME_NOT_SELECTED'') (fst st)"
  by (simp_all add: check_UNREG_WITH_INCOME_def check_REG_NEEDS_UPDATE_def
      check_APPROACHING_VAT_THRESHOLD_def check_EXCEEDS_VAT_THRESHOLD_def check_MISSING_2307_def
      check_HIGH_WITHHOLDING_def check_8PCT_HIGH_EXPENSES_def check_NO_INCOME_RECORDED_def
      check_MIXED_NO_EMPLOYMENT_def check_LARGE_INCOME_NO_DOCS_def check_EXPENSE_DOCS_REMINDER_def
      Let_def fst_push)

lemma check_REGIME_NOT_SELECTED_flags:
  "filter (\<lambda>f. code f = ''REGIME_NOT_SELECTED'') (fst (check_REGIME_NOT_SELECTED this inp st))
     = filter (\<lambda>f. code f = ''REGIME_NOT_SELECTED'') (fst st)
       @ (if selectedRegime inp = Some UNDETERMINED
          then [\<lparr>rf_id = riskNextId (snd st), level = WARNING,
                  code = ''REGIME_NOT_SELECTED'', descriptionValues = [],
                  rf_ruleModuleId = rm_id this, affectedFields = [''selectedRegime'']\<rparr>]
          else [])"
  by (simp add: check_REGIME_NOT_SELECTED_def fst_push)

lemma risk_flag_only_when_undetermined:
  "list_ex (\<lambda>f. code f = ''REGIME_NOT_SELECTED'') (RiskAssessmentRule_execute this inp)
     \<longleftrightarrow> selectedRegime inp = Some UNDETERMINED"
proof -
  have "list_ex P xs \<longleftrightarrow> filter P xs \<noteq> []" for P and xs :: "RiskFlag list"
    by (induction xs) auto
  then show ?thesis
    unfolding RiskAssessmentRule_execute_def
    by (simp only: other_checks_push_no_REGIME_NOT_SELECTED check_REGIME_NOT_SELECTED_flags) simp
qed

lemma riskFlags_runAssessment:
  "riskFlags (fst (RulesEngineService_runAssessment host this inp)) =
     RiskAssessmentRule_execute (riskRule this)
       (inp\<lparr>selectedRegime :=
          effectiveRegimeOf inp (RegimeDeterminationRule_execute (regimeRule this) inp)\<rparr>)"
  by (simp add: RulesEngineService_runAssessment_def Let_def)

lemma recommendedRegime_runAssessment:
  "recommendedRegime (fst (RulesEngineService_runAssessment host this inp)) =
     effectiveRegimeOf inp (RegimeDeterminationRule_execute (regimeRule this) inp)"
  by (simp add: RulesEngineService_runAssessment_def Let_def)

text \<open>
  Claim C10. The risk flags returned by \<open>runAssessment\<close> never contain a flag with code
  \<open>REGIME_NOT_SELECTED\<close>: the risk rule runs on the effective input, whose selected regime
  is the user's selection unless that is \<open>UNDETERMINED\<close>, and the recommendation of the
  regime rule otherwise, which is never \<open>UNDETERMINED\<close>. When the input carries a selected
  regime at all, the effective regime is one of the two concrete regimes.
\<close>

theorem regime_not_selected_flag_unreachable:
  "\<not> list_ex (\<lambda>f. code f = ''REGIME_NOT_SELECTED'')
        (riskFlags (fst (RulesEngineService_runAssessment host this inp)))
   \<and> recommendedRegime (fst (RulesEngineService_runAssessment host this inp))
        \<noteq> Some UNDETERMINED
   \<and> (selectedRegime inp \<noteq> None \<longrightarrow>
        recommendedRegime (fst (RulesEngineService_runAssessment host this inp))
          \<in> {Some GRADUATED_RATES, Some EIGHT_PERCENT_FLAT})"
proof (intro conjI impI)
  show "\<not> list_ex (\<lambda>f. code f = ''REGIME_NOT_SELECTED'')
        (riskFlags (fst (RulesEngineService_runAssessment host this inp)))"
    by (simp only: riskFlags_runAssessment risk_flag_only_when_undetermined)
       (simp add: effectiveRegime_not_undetermined)
next
  show "recommendedRegime (fst (RulesEngineService_runAssessment host this inp))
        \<noteq> Some UNDETERMINED"
    by (simp only: recommendedRegime_runAssessment effectiveRegime_not_undetermined)
       simp
next
  assume "selectedRegime inp \<noteq> None"
  then obtain r where r: "selectedRegime inp = Some r" by blast
  show "recommendedRegime (fst (RulesEngineService_runAssessment host this inp))
          \<in> {Some GRADUATED_RATES, Some EIGHT_PERCENT_FLAT}"
  proof (cases r)
    case UNDETERMINED
    with r recommendation_concrete [of "regimeRule this" inp] show ?thesis
      by (cases "recommendation (RegimeDeterminationRule_execute (regimeRule this) inp)")
         (simp_all add: recommendedRegime_runAssessment effectiveRegimeOf_def)
  qed (use r in \<open>simp_all add: recommendedRegime_runAssessment effectiveRegimeOf_def\<close>)
qed

theorem regime_not_selected_flag_unreachable_witness:
  "selectedRegime createBaseInput = Some UNDETERMINED
   \<and> \<not> list_ex (\<lambda>f. code f = ''REGIME_NOT_SELECTED'')
        (riskFlags (fst (RulesEngineService_runAssessment utcHost RulesEngineService_new
           createBaseInput)))
   \<and> recommendedRegime (fst (RulesEngineService_runAssessment utcHost RulesEngineService_new
        createBaseInput)) \<in> {Some GRADUATED_RATES, Some EIGHT_PERCENT_FLAT}"
  using regime_not_selected_flag_unreachable [of utcHost RulesEngineService_new createBaseInput]
  by (simp add: createBaseInput_def createInput_def)

end
